theory Spec2Isabelle
  imports Main
begin

section \<open>Data model (types.ts)\<close>

text \<open>
  Strings are \<^typ>\<open>string\<close>; one \<^typ>\<open>char\<close> stands for one code unit of the
  JavaScript string, in the range U+0000 to U+00FF.
\<close>

record TranscriptEntry =
  timestamp :: string
  speaker :: string
  "text" :: string

text \<open>
  \<^verbatim>\<open>provider\<close> is declared as the union of four string literals, but the settings object
  is merged from \<^verbatim>\<open>localStorage\<close> at run time and the dispatcher has a \<^verbatim>\<open>default\<close>
  branch for any other value, so the field is a string here.
\<close>

record LlmSettings =
  provider :: string
  openAiApiKey :: string
  ollamaUrl :: string
  ollamaModel :: string
  lmStudioUrl :: string

section \<open>Transcript formatter\<close>

text \<open>\<^verbatim>\<open>Array.prototype.join\<close> on an array of strings.\<close>

fun join :: "string \<Rightarrow> string list \<Rightarrow> string" where
  "join sep [] = []"
| "join sep [x] = x"
| "join sep (x # y # ys) = x @ sep @ join sep (y # ys)"

text \<open>The arrow function mapped over the entries: \<^verbatim>\<open>`[${entry.timestamp}] ${entry.speaker}: ${entry.text}`\<close>.\<close>

definition formatEntry :: "TranscriptEntry \<Rightarrow> string" where
  "formatEntry entry = ''['' @ timestamp entry @ ''] '' @ speaker entry @ '': '' @ text entry"

definition formatTranscript :: "TranscriptEntry list \<Rightarrow> string" where
  "formatTranscript transcript = join ''\<newline>'' (map formatEntry transcript)"

text \<open>
  The lines of a text, for stating what the formatter's output contains: the pieces between
  newline characters (\<^verbatim>\<open>s.split('\n')\<close>), and no line at all for the empty text.
\<close>

fun split_on :: "char \<Rightarrow> string \<Rightarrow> string list" where
  "split_on d [] = [[]]"
| "split_on d (c # cs) =
     (if c = d then [] # split_on d cs
      else (case split_on d cs of [] \<Rightarrow> [[c]] | l # ls \<Rightarrow> (c # l) # ls))"

definition lines_of :: "string \<Rightarrow> string list" where
  "lines_of s = (if s = [] then [] else split_on CHR ''\<newline>'' s)"

definition single_line :: "string \<Rightarrow> bool" where
  "single_line s = (CHR ''\<newline>'' \<notin> set s)"

definition single_line_entry :: "TranscriptEntry \<Rightarrow> bool" where
  "single_line_entry e = (single_line (timestamp e) \<and> single_line (speaker e) \<and> single_line (text e))"

section \<open>JavaScript values and errors\<close>

text \<open>
  A value produced by \<^verbatim>\<open>JSON.parse\<close>. A number is kept as its lexeme; an object keeps its
  members in source order, and a lookup takes the last member with the key, as later
  duplicates overwrite earlier ones. \<^verbatim>\<open>undefined\<close> is \<^const>\<open>None\<close> of the option type.
\<close>

datatype json =
  JNull
| JBool bool
| JNumber string
| JString string
| JArray "json list"
| JObject "(string \<times> json) list"

text \<open>
  What a \<^verbatim>\<open>throw\<close> or a rejected promise carries: \<^verbatim>\<open>new Error(message)\<close> of the source,
  the engine's \<^verbatim>\<open>TypeError\<close> (a property read on \<^verbatim>\<open>null\<close> or \<^verbatim>\<open>undefined\<close>, a call of
  something that is no function) and \<^verbatim>\<open>SyntaxError\<close> (\<^verbatim>\<open>JSON.parse\<close>), and whatever else
  the transport rejects with.
\<close>

datatype js_error =
  Error string
| TypeError
| SyntaxError
| Rejected string

text \<open>The whitespace of \<^verbatim>\<open>String.prototype.trim\<close> and of \<^verbatim>\<open>\s\<close>, up to U+00FF.\<close>

definition is_space :: "char \<Rightarrow> bool" where
  "is_space c = (of_char c \<in> {9, 10, 11, 12, 13, 32, 160 :: nat})"

definition trim :: "string \<Rightarrow> string" where
  "trim s = rev (dropWhile is_space (rev (dropWhile is_space s)))"

text \<open>
  \<^verbatim>\<open>value.name\<close> for the property names the adapters read (\<^verbatim>\<open>choices\<close>, \<^verbatim>\<open>message\<close>,
  \<^verbatim>\<open>content\<close>, \<^verbatim>\<open>error\<close>): a \<^verbatim>\<open>TypeError\<close> on \<^verbatim>\<open>null\<close> and \<^verbatim>\<open>undefined\<close>, the member of
  an object, and \<^verbatim>\<open>undefined\<close> on any other value (no prototype has these names).
\<close>

fun get_prop :: "json option \<Rightarrow> string \<Rightarrow> js_error + json option" where
  "get_prop None name = Inl TypeError"
| "get_prop (Some JNull) name = Inl TypeError"
| "get_prop (Some (JObject members)) name = Inr (map_of (rev members) name)"
| "get_prop (Some v) name = Inr None"

text \<open>\<^verbatim>\<open>value[0]\<close>: the first element of an array, the first character of a string.\<close>

fun get_index0 :: "json option \<Rightarrow> js_error + json option" where
  "get_index0 None = Inl TypeError"
| "get_index0 (Some JNull) = Inl TypeError"
| "get_index0 (Some (JObject members)) = Inr (map_of (rev members) ''0'')"
| "get_index0 (Some (JArray [])) = Inr None"
| "get_index0 (Some (JArray (x # xs))) = Inr (Some x)"
| "get_index0 (Some (JString [])) = Inr None"
| "get_index0 (Some (JString (c # cs))) = Inr (Some (JString [c]))"
| "get_index0 (Some v) = Inr None"

text \<open>
  \<^verbatim>\<open>ToString\<close> and \<^verbatim>\<open>ToBoolean\<close> of the language. What they do on a number depends on its
  floating-point value, so both take that part as a parameter. An object is converted by its
  \<^verbatim>\<open>toString\<close> method: the inherited one gives \<open>[object Object]\<close>, and an own member of
  that name, which is never a function in a parsed value, leaves no method that returns a
  primitive, so the conversion throws a \<^verbatim>\<open>TypeError\<close>. An array joins the conversions of its
  elements with commas, \<^verbatim>\<open>null\<close> giving the empty string.
\<close>

fun ToString_json :: "(string \<Rightarrow> string) \<Rightarrow> json \<Rightarrow> js_error + string"
  and ToString_elements :: "(string \<Rightarrow> string) \<Rightarrow> json list \<Rightarrow> js_error + string" where
  "ToString_json num JNull = Inr ''null''"
| "ToString_json num (JBool b) = Inr (if b then ''true'' else ''false'')"
| "ToString_json num (JNumber n) = Inr (num n)"
| "ToString_json num (JString s) = Inr s"
| "ToString_json num (JArray xs) = ToString_elements num xs"
| "ToString_json num (JObject members) =
     (if ''toString'' \<in> set (map fst members) then Inl TypeError else Inr ''[object Object]'')"
| "ToString_elements num [] = Inr []"
| "ToString_elements num (x # xs) =
     (case (if x = JNull then Inr [] else ToString_json num x) of
        Inl e \<Rightarrow> Inl e
      | Inr s \<Rightarrow>
          if xs = [] then Inr s
          else (case ToString_elements num xs of
                  Inl e \<Rightarrow> Inl e
                | Inr r \<Rightarrow> Inr (s @ '','' @ r)))"

definition ToString :: "(string \<Rightarrow> string) \<Rightarrow> json option \<Rightarrow> js_error + string" where
  "ToString num v = (case v of None \<Rightarrow> Inr ''undefined'' | Some x \<Rightarrow> ToString_json num x)"

fun ToBoolean :: "(string \<Rightarrow> bool) \<Rightarrow> json option \<Rightarrow> bool" where
  "ToBoolean zero None = False"
| "ToBoolean zero (Some JNull) = False"
| "ToBoolean zero (Some (JBool b)) = b"
| "ToBoolean zero (Some (JNumber n)) = (\<not> zero n)"
| "ToBoolean zero (Some (JString s)) = (s \<noteq> [])"
| "ToBoolean zero (Some (JArray xs)) = True"
| "ToBoolean zero (Some (JObject members)) = True"

section \<open>The platform\<close>

text \<open>
  What the service calls and does not define: \<^verbatim>\<open>fetch\<close>, the Gemini SDK's
  \<^verbatim>\<open>ai.models.generateContent\<close>, \<^verbatim>\<open>JSON.parse\<close> (\<^const>\<open>None\<close>: it throws a \<^verbatim>\<open>SyntaxError\<close>),
  \<^verbatim>\<open>JSON.stringify\<close> (with its indentation) and the two readings of a number. They are
  parameters of every function below.
\<close>

record http_request =
  req_url :: string
  req_method :: string
  req_headers :: "(string \<times> string) list"
  req_body :: string

record http_response =
  resp_ok :: bool
  resp_body :: string

record GoogleGenAI =
  apiKey :: string

record gemini_request =
  gen_model :: string
  gen_contents :: string
  gen_responseMimeType :: string
  gen_responseSchema :: json

record platform =
  fetch :: "http_request \<Rightarrow> js_error + http_response"
  generateContent :: "GoogleGenAI \<Rightarrow> gemini_request \<Rightarrow> js_error + string option"
  JSON_parse :: "string \<Rightarrow> json option"
  JSON_stringify :: "json \<Rightarrow> nat \<Rightarrow> string"
  Number_toString :: "string \<Rightarrow> string"
  Number_isZero :: "string \<Rightarrow> bool"

text \<open>A call handed to the network: a \<^verbatim>\<open>fetch\<close>, or a content generation of the SDK.\<close>

datatype request =
  Fetch http_request
| GenerateContent GoogleGenAI gemini_request

text \<open>\<^verbatim>\<open>console.error(label, error)\<close> of the dispatcher and \<^verbatim>\<open>console.error(e)\<close> of the caller.\<close>

datatype log_entry =
  ConsoleError string js_error
| ConsoleErrorValue string

text \<open>
  The state a call works on: the objects the caller passed by reference (the transcript
  array with its entries, the checklist, the settings object), the calls issued to the
  network so far, and the console.
\<close>

record js_state =
  transcript :: "TranscriptEntry list"
  checklist :: string
  settings :: LlmSettings
  requests :: "request list"
  console :: "log_entry list"

section \<open>The analysis service\<close>

subsection \<open>Module initialisation\<close>

text \<open>
  The top level of the service module: \<^verbatim>\<open>process.env.API_KEY\<close> is read, an absent or empty
  key throws, otherwise the SDK client \<^verbatim>\<open>ai\<close> is built. The exports of the module exist
  only when this returns a client.
\<close>

definition geminiService :: "string option \<Rightarrow> js_error + GoogleGenAI" where
  "geminiService API_KEY =
     (case API_KEY of
        None \<Rightarrow> Inl (Error ''API_KEY environment variable not set'')
      | Some k \<Rightarrow>
          if k = [] then Inl (Error ''API_KEY environment variable not set'')
          else Inr \<lparr>apiKey = k\<rparr>)"

definition geminiModel :: string where
  "geminiModel = ''gemini-2.5-flash''"

subsection \<open>Schema and prompts\<close>

text \<open>
  \<^verbatim>\<open>analysisSchema\<close>. \<^verbatim>\<open>Type.OBJECT\<close>, \<^verbatim>\<open>Type.STRING\<close> and \<^verbatim>\<open>Type.ARRAY\<close> are the SDK's
  enumeration, whose values are their own names.
\<close>

definition analysisSchema :: json where
  "analysisSchema = JObject [
     (''type'', JString ''OBJECT''),
     (''properties'', JObject [
        (''summary'', JObject [
           (''type'', JString ''STRING''),
           (''description'', JString ''A concise summary of the meeting's key discussions and decisions.'')]),
        (''actionItems'', JObject [
           (''type'', JString ''ARRAY''),
           (''description'', JString ''A list of clear action items.''),
           (''items'', JObject [
              (''type'', JString ''OBJECT''),
              (''properties'', JObject [
                 (''task'', JObject [
                    (''type'', JString ''STRING''),
                    (''description'', JString ''The specific action item.'')]),
                 (''owner'', JObject [
                    (''type'', JString ''STRING''),
                    (''description'', JString ''The person or team responsible (e.g., 'Speaker 1', 'Engineering Team'). If not mentioned, use 'Unassigned'.'')])]),
              (''required'', JArray [JString ''task'', JString ''owner''])])]),
        (''missingPoints'', JObject [
           (''type'', JString ''ARRAY''),
           (''description'', JString ''A list of points from the checklist that were not discussed.''),
           (''items'', JObject [
              (''type'', JString ''OBJECT''),
              (''properties'', JObject [
                 (''point'', JObject [
                    (''type'', JString ''STRING''),
                    (''description'', JString ''The checklist item that was missed.'')]),
                 (''recommendation'', JObject [
                    (''type'', JString ''STRING''),
                    (''description'', JString ''A brief suggestion on how to address this.'')])]),
              (''required'', JArray [JString ''point'', JString ''recommendation''])])])]),
     (''required'', JArray [JString ''summary'', JString ''actionItems'', JString ''missingPoints''])]"

definition getBasePrompt :: "string \<Rightarrow> string \<Rightarrow> string" where
  "getBasePrompt formattedTranscript checklist' =
     ''\<newline>  You are an expert AI meeting assistant specializing in technical reviews.\<newline>'' @
     ''  Analyze the following meeting transcript based on the provided technical review checklist.\<newline>'' @
     ''\<newline>'' @
     ''  **Meeting Transcript:**\<newline>'' @
     ''  '' @ formattedTranscript @ ''\<newline>'' @
     ''\<newline>'' @
     ''  **Technical Review Checklist:**\<newline>'' @
     ''  '' @ checklist' @ ''\<newline>'' @
     ''\<newline>'' @
     ''  Your task is to generate a summary of the meeting, identify clear action items with owners, and list any points from the checklist that were not discussed.\<newline>'' @
     ''\<newline>'' @
     ''  Provide your response as a single JSON object that adheres to the provided schema. Do not include any markdown formatting like ```json.\<newline>''"

definition getJsonSchemaPrompt :: "platform \<Rightarrow> string" where
  "getJsonSchemaPrompt pf =
     ''\<newline>  The JSON schema for your response is as follows:\<newline>'' @
     ''  '' @ JSON_stringify pf analysisSchema 2 @ ''\<newline>''"

text \<open>The system prompt the OpenAI and LM Studio adapters build, word for word the same.\<close>

definition systemPrompt :: "platform \<Rightarrow> string" where
  "systemPrompt pf =
     ''You are an expert AI meeting assistant. Your response must be a single valid JSON object, without any markdown formatting. The required JSON schema is: '' @
     JSON_stringify pf analysisSchema 2"

subsection \<open>Steps shared by the adapters\<close>

text \<open>Issuing a call: it is appended to the calls of the state.\<close>

definition issue :: "request \<Rightarrow> js_state \<Rightarrow> js_state" where
  "issue r st = st\<lparr>requests := requests st @ [r]\<rparr>"

text \<open>\<^verbatim>\<open>await response.json()\<close>: the body parsed as JSON, rejecting with a \<^verbatim>\<open>SyntaxError\<close>.\<close>

definition response_json :: "platform \<Rightarrow> http_response \<Rightarrow> js_error + json" where
  "response_json pf response =
     (case JSON_parse pf (resp_body response) of None \<Rightarrow> Inl SyntaxError | Some v \<Rightarrow> Inr v)"

text \<open>
  \<^verbatim>\<open>JSON.parse(jsonText) as AnalysisResult\<close>: the argument is converted to a string (which
  may throw), parsed, and the value is returned as it is; the cast checks nothing at run time.
\<close>

definition parse_result :: "platform \<Rightarrow> json option \<Rightarrow> js_error + json" where
  "parse_result pf jsonText =
     (case ToString (Number_toString pf) jsonText of
        Inl e \<Rightarrow> Inl e
      | Inr s \<Rightarrow>
          (case JSON_parse pf s of
             None \<Rightarrow> Inl SyntaxError
           | Some v \<Rightarrow> Inr v))"

text \<open>\<^verbatim>\<open>data.choices[0].message.content\<close>\<close>

definition choices0_message_content :: "json \<Rightarrow> js_error + json option" where
  "choices0_message_content data =
     (case get_prop (Some data) ''choices'' of
        Inl e \<Rightarrow> Inl e
      | Inr choices \<Rightarrow>
          (case get_index0 choices of
             Inl e \<Rightarrow> Inl e
           | Inr choice \<Rightarrow>
               (case get_prop choice ''message'' of
                  Inl e \<Rightarrow> Inl e
                | Inr message \<Rightarrow> get_prop message ''content'')))"

text \<open>\<^verbatim>\<open>data.message.content\<close>\<close>

definition message_content :: "json \<Rightarrow> js_error + json option" where
  "message_content data =
     (case get_prop (Some data) ''message'' of
        Inl e \<Rightarrow> Inl e
      | Inr message \<Rightarrow> get_prop message ''content'')"

text \<open>
  \<^verbatim>\<open>`<label> API error: ${errorData.error?.message || 'Unknown error'}`\<close>, thrown as an
  \<^verbatim>\<open>Error\<close>; reading \<^verbatim>\<open>error\<close> of \<^verbatim>\<open>null\<close>, or converting a message that has no
  string form, throws a \<^verbatim>\<open>TypeError\<close> instead.
\<close>

definition api_error :: "platform \<Rightarrow> string \<Rightarrow> json \<Rightarrow> js_error" where
  "api_error pf label errorData =
     (case get_prop (Some errorData) ''error'' of
        Inl e \<Rightarrow> e
      | Inr err \<Rightarrow>
          (let message =
                 (case err of
                    None \<Rightarrow> None
                  | Some JNull \<Rightarrow> None
                  | Some v \<Rightarrow> (case get_prop (Some v) ''message'' of Inl e \<Rightarrow> None | Inr m \<Rightarrow> m))
           in if ToBoolean (Number_isZero pf) message
              then (case ToString (Number_toString pf) message of
                      Inl e \<Rightarrow> e
                    | Inr detail \<Rightarrow> Error (label @ '' API error: '' @ detail))
              else Error (label @ '' API error: '' @ ''Unknown error'')))"

subsection \<open>The Gemini adapter\<close>

definition geminiRequest :: "js_state \<Rightarrow> gemini_request" where
  "geminiRequest st =
     (let formattedTranscript = formatTranscript (transcript st);
          prompt = getBasePrompt formattedTranscript (checklist st)
      in \<lparr>gen_model = geminiModel, gen_contents = prompt,
          gen_responseMimeType = ''application/json'',
          gen_responseSchema = analysisSchema\<rparr>)"

definition analyzeWithGemini :: "platform \<Rightarrow> GoogleGenAI \<Rightarrow> js_state \<Rightarrow> (js_error + json) \<times> js_state" where
  "analyzeWithGemini pf ai st =
     (let st1 = issue (GenerateContent ai (geminiRequest st)) st
      in case generateContent pf ai (geminiRequest st) of
           Inl e \<Rightarrow> (Inl e, st1)
         | Inr None \<Rightarrow> (Inl TypeError, st1)
         | Inr (Some response_text) \<Rightarrow>
             (let jsonText = trim response_text
              in (parse_result pf (Some (JString jsonText)), st1)))"

subsection \<open>The OpenAI adapter\<close>

definition openAiRequest :: "platform \<Rightarrow> js_state \<Rightarrow> http_request" where
  "openAiRequest pf st =
     (let formattedTranscript = formatTranscript (transcript st);
          userPrompt = getBasePrompt formattedTranscript (checklist st)
      in \<lparr>req_url = ''https://api.openai.com/v1/chat/completions'',
          req_method = ''POST'',
          req_headers = [(''Content-Type'', ''application/json''),
                         (''Authorization'', ''Bearer '' @ openAiApiKey (settings st))],
          req_body = JSON_stringify pf (JObject [
             (''model'', JString ''gpt-4o''),
             (''messages'', JArray [
                JObject [(''role'', JString ''system''), (''content'', JString (systemPrompt pf))],
                JObject [(''role'', JString ''user''), (''content'', JString userPrompt)]]),
             (''response_format'', JObject [(''type'', JString ''json_object'')])]) 0\<rparr>)"

definition analyzeWithOpenAI :: "platform \<Rightarrow> js_state \<Rightarrow> (js_error + json) \<times> js_state" where
  "analyzeWithOpenAI pf st =
     (if openAiApiKey (settings st) = [] then (Inl (Error ''OpenAI API Key is not configured.''), st)
      else
        (let st1 = issue (Fetch (openAiRequest pf st)) st
         in case fetch pf (openAiRequest pf st) of
              Inl e \<Rightarrow> (Inl e, st1)
            | Inr response \<Rightarrow>
                if \<not> resp_ok response then
                  (case response_json pf response of
                     Inl e \<Rightarrow> (Inl e, st1)
                   | Inr errorData \<Rightarrow> (Inl (api_error pf ''OpenAI'' errorData), st1))
                else
                  (case response_json pf response of
                     Inl e \<Rightarrow> (Inl e, st1)
                   | Inr data \<Rightarrow>
                       (case choices0_message_content data of
                          Inl e \<Rightarrow> (Inl e, st1)
                        | Inr jsonText \<Rightarrow> (parse_result pf jsonText, st1)))))"

subsection \<open>The Ollama adapter\<close>

definition ollamaRequest :: "platform \<Rightarrow> js_state \<Rightarrow> http_request" where
  "ollamaRequest pf st =
     (let formattedTranscript = formatTranscript (transcript st);
          userPrompt = getBasePrompt formattedTranscript (checklist st) @ ''\<newline>\<newline>'' @
                       getJsonSchemaPrompt pf
      in \<lparr>req_url = ollamaUrl (settings st) @ ''/api/chat'',
          req_method = ''POST'',
          req_headers = [(''Content-Type'', ''application/json'')],
          req_body = JSON_stringify pf (JObject [
             (''model'', JString (ollamaModel (settings st))),
             (''messages'', JArray [
                JObject [(''role'', JString ''user''), (''content'', JString userPrompt)]]),
             (''format'', JString ''json''),
             (''stream'', JBool False)]) 0\<rparr>)"

definition analyzeWithOllama :: "platform \<Rightarrow> js_state \<Rightarrow> (js_error + json) \<times> js_state" where
  "analyzeWithOllama pf st =
     (if ollamaUrl (settings st) = [] \<or> ollamaModel (settings st) = []
      then (Inl (Error ''Ollama URL or model name is not configured.''), st)
      else
        (let st1 = issue (Fetch (ollamaRequest pf st)) st
         in case fetch pf (ollamaRequest pf st) of
              Inl e \<Rightarrow> (Inl e, st1)
            | Inr response \<Rightarrow>
                if \<not> resp_ok response then
                  (let errorText = resp_body response
                   in (Inl (Error (''Ollama API error: '' @ errorText)), st1))
                else
                  (case response_json pf response of
                     Inl e \<Rightarrow> (Inl e, st1)
                   | Inr data \<Rightarrow>
                       (case message_content data of
                          Inl e \<Rightarrow> (Inl e, st1)
                        | Inr jsonText \<Rightarrow> (parse_result pf jsonText, st1)))))"

subsection \<open>The LM Studio adapter\<close>

text \<open>
  \<^verbatim>\<open>jsonText.replace(/^```json\s*|```\s*$/g, '')\<close>. The first alternative matches at the
  start of the text only and takes the whitespace after the marker; from there on, the
  second alternative matches at the first place where three backquotes are followed by
  nothing but whitespace up to the end, and takes all of it.
\<close>

definition is_fence_tail :: "string \<Rightarrow> bool" where
  "is_fence_tail s = (take 3 s = ''```'' \<and> list_all is_space (drop 3 s))"

fun strip_tail_fence :: "string \<Rightarrow> string" where
  "strip_tail_fence [] = []"
| "strip_tail_fence (c # cs) = (if is_fence_tail (c # cs) then [] else c # strip_tail_fence cs)"

definition replace_fences :: "string \<Rightarrow> string" where
  "replace_fences s =
     (if take 7 s = ''```json'' then strip_tail_fence (dropWhile is_space (drop 7 s))
      else strip_tail_fence s)"

text \<open>
  The last three statements of the adapter, from \<^verbatim>\<open>jsonText\<close> on: \<^verbatim>\<open>replace\<close> and \<^verbatim>\<open>trim\<close>
  are methods of a string, so any other content throws a \<^verbatim>\<open>TypeError\<close>.
\<close>

definition parse_fenced_result :: "platform \<Rightarrow> json option \<Rightarrow> js_error + json" where
  "parse_fenced_result pf jsonText =
     (case jsonText of
        Some (JString s) \<Rightarrow>
          (let cleanJsonText = trim (replace_fences s)
           in parse_result pf (Some (JString cleanJsonText)))
      | _ \<Rightarrow> Inl TypeError)"

definition lmStudioRequest :: "platform \<Rightarrow> js_state \<Rightarrow> http_request" where
  "lmStudioRequest pf st =
     (let formattedTranscript = formatTranscript (transcript st);
          userPrompt = getBasePrompt formattedTranscript (checklist st)
      in \<lparr>req_url = lmStudioUrl (settings st) @ ''/v1/chat/completions'',
          req_method = ''POST'',
          req_headers = [(''Content-Type'', ''application/json'')],
          req_body = JSON_stringify pf (JObject [
             (''model'', JString ''local-model''),
             (''messages'', JArray [
                JObject [(''role'', JString ''system''), (''content'', JString (systemPrompt pf))],
                JObject [(''role'', JString ''user''), (''content'', JString userPrompt)]]),
             (''temperature'', JNumber ''0.7'')]) 0\<rparr>)"

definition analyzeWithLmStudio :: "platform \<Rightarrow> js_state \<Rightarrow> (js_error + json) \<times> js_state" where
  "analyzeWithLmStudio pf st =
     (if lmStudioUrl (settings st) = [] then (Inl (Error ''LM Studio URL is not configured.''), st)
      else
        (let st1 = issue (Fetch (lmStudioRequest pf st)) st
         in case fetch pf (lmStudioRequest pf st) of
              Inl e \<Rightarrow> (Inl e, st1)
            | Inr response \<Rightarrow>
                if \<not> resp_ok response then
                  (case response_json pf response of
                     Inl e \<Rightarrow> (Inl e, st1)
                   | Inr errorData \<Rightarrow> (Inl (api_error pf ''LM Studio'' errorData), st1))
                else
                  (case response_json pf response of
                     Inl e \<Rightarrow> (Inl e, st1)
                   | Inr data \<Rightarrow>
                       (case choices0_message_content data of
                          Inl e \<Rightarrow> (Inl e, st1)
                        | Inr jsonText \<Rightarrow> (parse_fenced_result pf jsonText, st1)))))"

subsection \<open>The dispatcher\<close>

text \<open>The \<^verbatim>\<open>switch\<close> on \<^verbatim>\<open>settings.provider\<close>, inside the \<^verbatim>\<open>try\<close>.\<close>

definition dispatch :: "platform \<Rightarrow> GoogleGenAI \<Rightarrow> js_state \<Rightarrow> (js_error + json) \<times> js_state" where
  "dispatch pf ai st =
     (if provider (settings st) = ''gemini'' then analyzeWithGemini pf ai st
      else if provider (settings st) = ''openai'' then analyzeWithOpenAI pf st
      else if provider (settings st) = ''ollama'' then analyzeWithOllama pf st
      else if provider (settings st) = ''lmstudio'' then analyzeWithLmStudio pf st
      else (Inl (Error (''Unsupported model provider: '' @ provider (settings st))), st))"

text \<open>
  \<^verbatim>\<open>analyzeTranscript\<close>: the \<^verbatim>\<open>catch\<close> logs the error caught and throws
  \<^verbatim>\<open>new Error(message)\<close>, with a message built from the provider's name alone. A failure
  is \<^term>\<open>Inl message\<close>: the promise rejects with that \<^verbatim>\<open>Error\<close>.
\<close>

definition failure_message :: "string \<Rightarrow> string" where
  "failure_message p =
     ''Failed to get analysis from '' @ p @ ''. Please check your settings and the console for details.''"

definition analyzeTranscript :: "platform \<Rightarrow> GoogleGenAI \<Rightarrow> js_state \<Rightarrow> (string + json) \<times> js_state" where
  "analyzeTranscript pf ai st =
     (case dispatch pf ai st of
        (Inr result, st1) \<Rightarrow> (Inr result, st1)
      | (Inl error, st1) \<Rightarrow>
          (Inl (failure_message (provider (settings st1))),
           st1\<lparr>console := console st1 @
                  [ConsoleError (''Error calling '' @ provider (settings st1) @ '' API:'') error]\<rparr>))"

subsection \<open>Importing the module\<close>

text \<open>
  \<^verbatim>\<open>import { analyzeTranscript } from './services/geminiService'\<close> and a call: the module's
  top level runs first, and when it throws there is no \<^verbatim>\<open>analyzeTranscript\<close> to call.
\<close>

definition import_analyzeTranscript ::
  "platform \<Rightarrow> string option \<Rightarrow> js_state \<Rightarrow> js_error + (string + json) \<times> js_state" where
  "import_analyzeTranscript pf API_KEY st =
     (case geminiService API_KEY of
        Inl e \<Rightarrow> Inl e
      | Inr ai \<Rightarrow> Inr (analyzeTranscript pf ai st))"

section \<open>The callers in the user interface\<close>

text \<open>
  The state of \<^verbatim>\<open>App\<close> that \<^verbatim>\<open>handleReview\<close> reads and sets, with the calls issued and the
  console. The transcript is \<^verbatim>\<open>TranscriptEntry[] | null\<close>.
\<close>

record app_state =
  app_transcript :: "TranscriptEntry list option"
  app_checklist :: string
  llmSettings :: LlmSettings
  analysisResult :: "json option"
  isLoading :: bool
  app_error :: "string option"
  app_requests :: "request list"
  app_console :: "log_entry list"

text \<open>\<^verbatim>\<open>handleReview\<close> of \<^verbatim>\<open>App.tsx\<close>. The objects passed to the service are the app's own.\<close>

definition handleReview :: "platform \<Rightarrow> GoogleGenAI \<Rightarrow> app_state \<Rightarrow> app_state" where
  "handleReview pf ai app =
     (case app_transcript app of
        None \<Rightarrow> app\<lparr>app_error := Some ''A transcript must be available before analysis.''\<rparr>
      | Some t \<Rightarrow>
          if length t = 0
          then app\<lparr>app_error := Some ''A transcript must be available before analysis.''\<rparr>
          else
            (let app1 = app\<lparr>isLoading := True, app_error := None, analysisResult := None\<rparr>;
                 (r, st) = analyzeTranscript pf ai
                    \<lparr>transcript = t, checklist = app_checklist app1, settings = llmSettings app1,
                     requests = app_requests app1, console = app_console app1\<rparr>;
                 app2 = app1\<lparr>app_transcript := Some (transcript st), app_checklist := checklist st,
                              llmSettings := settings st, app_requests := requests st,
                              app_console := console st\<rparr>
             in case r of
                  Inr result \<Rightarrow> app2\<lparr>analysisResult := Some result, isLoading := False\<rparr>
                | Inl m \<Rightarrow>
                    app2\<lparr>app_console := app_console app2 @ [ConsoleErrorValue m],
                         app_error := Some (if m = [] then ''Failed to analyze transcript. Please check the console for details.'' else m),
                         isLoading := False\<rparr>))"

text \<open>
  \<^verbatim>\<open>handleSubmit\<close> of \<^verbatim>\<open>AnalysisPanel.tsx\<close>, whose \<^verbatim>\<open>onReview\<close> is \<^verbatim>\<open>handleReview\<close>:
  \<^verbatim>\<open>if (checklist.trim()) { onReview(); }\<close>.
\<close>

definition handleSubmit :: "platform \<Rightarrow> GoogleGenAI \<Rightarrow> app_state \<Rightarrow> app_state" where
  "handleSubmit pf ai app = (if trim (app_checklist app) \<noteq> [] then handleReview pf ai app else app)"

section \<open>Notions used to state the properties\<close>

text \<open>\<^verbatim>\<open>s.startsWith(p)\<close> and \<^verbatim>\<open>s.includes(p)\<close>: whether one text occurs within another.\<close>

fun starts_with :: "string \<Rightarrow> string \<Rightarrow> bool" where
  "starts_with s [] = True"
| "starts_with [] (p # ps) = False"
| "starts_with (c # cs) (p # ps) = (c = p \<and> starts_with cs ps)"

fun contains :: "string \<Rightarrow> string \<Rightarrow> bool" where
  "contains [] p = (p = [])"
| "contains (c # cs) p = (starts_with (c # cs) p \<or> contains cs p)"

text \<open>
  The shape \<^verbatim>\<open>AnalysisResult\<close> declares: \<^verbatim>\<open>summary\<close> a string, \<^verbatim>\<open>actionItems\<close> and
  \<^verbatim>\<open>missingPoints\<close> arrays.
\<close>

definition is_string :: "json option \<Rightarrow> bool" where
  "is_string v = (case v of Some (JString s) \<Rightarrow> True | _ \<Rightarrow> False)"

definition is_array :: "json option \<Rightarrow> bool" where
  "is_array v = (case v of Some (JArray xs) \<Rightarrow> True | _ \<Rightarrow> False)"

definition has_required_fields :: "json \<Rightarrow> bool" where
  "has_required_fields v =
     (case v of
        JObject members \<Rightarrow>
          is_string (map_of (rev members) ''summary'') \<and>
          is_array (map_of (rev members) ''actionItems'') \<and>
          is_array (map_of (rev members) ''missingPoints'')
      | _ \<Rightarrow> False)"

text \<open>A text that, trimmed, opens with a brace and closes with one, as every JSON object text does.\<close>

definition object_text :: "string \<Rightarrow> bool" where
  "object_text t = (trim t \<noteq> [] \<and> hd (trim t) = CHR ''{'' \<and> last (trim t) = CHR ''}'')"

text \<open>The response wrapped in a markdown fence: \<^verbatim>\<open>"```json\n" + t + "\n```"\<close>.\<close>

definition fenced :: "string \<Rightarrow> string" where
  "fenced t = ''```json\<newline>'' @ t @ ''\<newline>```''"

section \<open>A concrete platform\<close>

text \<open>
  \<^verbatim>\<open>JSON.parse\<close> after the JSON grammar, for evaluating the service on concrete responses:
  a lexer, then a parser with an explicit stack of the arrays and objects still open.
\<close>

datatype token =
  LBrace | RBrace | LBracket | RBracket | Colon | Comma
| TString string | TNumber string | TTrue | TFalse | TNull

definition is_digit :: "char \<Rightarrow> bool" where
  "is_digit c = (48 \<le> (of_char c :: nat) \<and> (of_char c :: nat) \<le> 57)"

definition hex_val :: "char \<Rightarrow> nat option" where
  "hex_val c =
     (let n = (of_char c :: nat)
      in if 48 \<le> n \<and> n \<le> 57 then Some (n - 48)
         else if 97 \<le> n \<and> n \<le> 102 then Some (n - 87)
         else if 65 \<le> n \<and> n \<le> 70 then Some (n - 55)
         else None)"

text \<open>The four hexadecimal digits of a \<^verbatim>\<open>\u\<close> escape.\<close>

definition hex4 :: "string \<Rightarrow> nat option" where
  "hex4 s =
     (case map hex_val s of
        [Some a, Some b, Some c, Some d] \<Rightarrow> Some (((a * 16 + b) * 16 + c) * 16 + d)
      | _ \<Rightarrow> None)"

definition unescape :: "char \<Rightarrow> char option" where
  "unescape e =
     (if e = CHR 0x22 then Some (CHR 0x22)
      else if e = CHR 0x5C then Some (CHR 0x5C)
      else if e = CHR ''/'' then Some (CHR ''/'')
      else if e = CHR ''b'' then Some (CHR 0x08)
      else if e = CHR ''f'' then Some (CHR 0x0C)
      else if e = CHR ''n'' then Some (CHR 0x0A)
      else if e = CHR ''r'' then Some (CHR 0x0D)
      else if e = CHR ''t'' then Some (CHR 0x09)
      else None)"

text \<open>
  The body of a string literal, after the opening quote: the decoded string and the input
  after the closing quote. A code unit above U+00FF is outside the strings of this model;
  \<^const>\<open>char_of\<close> keeps its low byte.
\<close>

fun lex_string :: "string \<Rightarrow> string \<Rightarrow> (string \<times> string) option" where
  "lex_string acc [] = None"
| "lex_string acc (c # cs) =
     (if c = CHR 0x22 then Some (rev acc, cs)
      else if c = CHR 0x5C then
        (case cs of
           [] \<Rightarrow> None
         | e # cs' \<Rightarrow>
             if e = CHR ''u'' then
               (case hex4 (take 4 cs') of
                  None \<Rightarrow> None
                | Some n \<Rightarrow> lex_string (char_of n # acc) (drop 4 cs'))
             else
               (case unescape e of
                  None \<Rightarrow> None
                | Some ch \<Rightarrow> lex_string (ch # acc) cs'))
      else if (of_char c :: nat) < 32 then None
      else lex_string (c # acc) cs)"

definition is_number_char :: "char \<Rightarrow> bool" where
  "is_number_char c = (is_digit c \<or> c \<in> set ''+-.eE'')"

text \<open>The grammar of a number: \<^verbatim>\<open>-?(0|[1-9][0-9]*)(\.[0-9]+)?([eE][+-]?[0-9]+)?\<close>.\<close>

definition valid_exponent :: "string \<Rightarrow> bool" where
  "valid_exponent s =
     (case s of
        [] \<Rightarrow> True
      | e # r \<Rightarrow>
          (e = CHR ''e'' \<or> e = CHR ''E'') \<and>
          (let ds = (case r of [] \<Rightarrow> [] | sg # r' \<Rightarrow> if sg = CHR ''+'' \<or> sg = CHR ''-'' then r' else r)
           in ds \<noteq> [] \<and> list_all is_digit ds))"

definition valid_fraction :: "string \<Rightarrow> bool" where
  "valid_fraction s =
     (case s of
        [] \<Rightarrow> True
      | p # r \<Rightarrow>
          if p = CHR ''.'' then takeWhile is_digit r \<noteq> [] \<and> valid_exponent (dropWhile is_digit r)
          else valid_exponent s)"

definition valid_number :: "string \<Rightarrow> bool" where
  "valid_number s =
     (let u = (case s of [] \<Rightarrow> [] | m # r \<Rightarrow> if m = CHR ''-'' then r else s);
          ip = takeWhile is_digit u
      in (ip = ''0'' \<or> (ip \<noteq> [] \<and> take 1 ip \<noteq> ''0'')) \<and> valid_fraction (dropWhile is_digit u))"

definition is_json_space :: "char \<Rightarrow> bool" where
  "is_json_space c = (c \<in> set [CHR 0x20, CHR 0x09, CHR 0x0A, CHR 0x0D])"

lemma lex_string_shorter: "lex_string acc s = Some (r, rest) \<Longrightarrow> length rest < length s"
proof (induction acc s rule: lex_string.induct)
  case (1 acc)
  then show ?case by simp
next
  case (2 acc c cs)
  show ?case
  proof (cases "c = CHR 0x22")
    case True
    with "2.prems" show ?thesis by simp
  next
    case nq: False
    show ?thesis
    proof (cases "c = CHR 0x5C")
      case bs: True
      show ?thesis
      proof (cases cs)
        case Nil
        with "2.prems" nq bs show ?thesis by simp
      next
        case (Cons e cs')
        show ?thesis
        proof (cases "e = CHR ''u''")
          case u: True
          from "2.prems" nq bs Cons u obtain n where n: "hex4 (take 4 cs') = Some n"
            and r: "lex_string (char_of n # acc) (drop 4 cs') = Some (r, rest)"
            by (auto split: option.splits)
          from "2.IH"(1) [OF nq bs Cons u n r] have "length rest < length (drop 4 cs')" .
          with Cons show ?thesis by simp
        next
          case nu: False
          from "2.prems" nq bs Cons nu obtain ch where ch: "unescape e = Some ch"
            and r: "lex_string (ch # acc) cs' = Some (r, rest)"
            by (auto split: option.splits)
          from "2.IH"(2) [OF nq bs Cons nu ch r] have "length rest < length cs'" .
          with Cons show ?thesis by simp
        qed
      qed
    next
      case nb: False
      show ?thesis
      proof (cases "(of_char c :: nat) < 32")
        case True
        with "2.prems" nq nb show ?thesis by simp
      next
        case False
        with "2.prems" nq nb have r: "lex_string (c # acc) cs = Some (r, rest)" by simp
        from "2.IH"(3) [OF nq nb False r] show ?thesis by simp
      qed
    qed
  qed
qed

function lex :: "string \<Rightarrow> token list option" where
  "lex [] = Some []"
| "lex (c # cs) =
     (if is_json_space c then lex cs
      else if c = CHR ''{'' then map_option (Cons LBrace) (lex cs)
      else if c = CHR ''}'' then map_option (Cons RBrace) (lex cs)
      else if c = CHR ''['' then map_option (Cons LBracket) (lex cs)
      else if c = CHR '']'' then map_option (Cons RBracket) (lex cs)
      else if c = CHR '':'' then map_option (Cons Colon) (lex cs)
      else if c = CHR '','' then map_option (Cons Comma) (lex cs)
      else if c = CHR 0x22 then
        (case lex_string [] cs of
           None \<Rightarrow> None
         | Some (s, rest) \<Rightarrow> map_option (Cons (TString s)) (lex rest))
      else if c = CHR ''-'' \<or> is_digit c then
        (if valid_number (c # takeWhile is_number_char cs)
         then map_option (Cons (TNumber (c # takeWhile is_number_char cs)))
                (lex (dropWhile is_number_char cs))
         else None)
      else if take 4 (c # cs) = ''true'' then map_option (Cons TTrue) (lex (drop 3 cs))
      else if take 5 (c # cs) = ''false'' then map_option (Cons TFalse) (lex (drop 4 cs))
      else if take 4 (c # cs) = ''null'' then map_option (Cons TNull) (lex (drop 3 cs))
      else None)"
  by pat_completeness auto
termination
proof (relation "measure length")
  show "wf (measure length)" by simp
next
  fix c cs x2 x y
  assume "lex_string [] cs = Some x2" and "(x, y) = x2"
  then have "length y < length cs" using lex_string_shorter [of "[]" cs x y] by simp
  then show "(y, c # cs) \<in> measure length" by simp
next
  fix c :: char and cs :: string
  have "length (dropWhile is_number_char cs) \<le> length cs" by (rule length_dropWhile_le)
  then show "(dropWhile is_number_char cs, c # cs) \<in> measure length" by simp
qed simp_all

text \<open>The arrays and objects still open, innermost first, with what they hold so far.\<close>

datatype frame =
  ArrayFrame "json list"
| ObjectFrame "(string \<times> json) list" string

datatype expect =
  ExpValue
| ExpValueOrClose
| ExpKeyOrClose
| ExpKey "(string \<times> json) list"
| ExpColon "(string \<times> json) list" string
| ExpAfter json

definition start_value :: "token \<Rightarrow> frame list \<Rightarrow> (expect \<times> frame list) option" where
  "start_value t stack =
     (case t of
        TString s \<Rightarrow> Some (ExpAfter (JString s), stack)
      | TNumber n \<Rightarrow> Some (ExpAfter (JNumber n), stack)
      | TTrue \<Rightarrow> Some (ExpAfter (JBool True), stack)
      | TFalse \<Rightarrow> Some (ExpAfter (JBool False), stack)
      | TNull \<Rightarrow> Some (ExpAfter JNull, stack)
      | LBracket \<Rightarrow> Some (ExpValueOrClose, ArrayFrame [] # stack)
      | LBrace \<Rightarrow> Some (ExpKeyOrClose, stack)
      | _ \<Rightarrow> None)"

definition close_value :: "json \<Rightarrow> frame list \<Rightarrow> token \<Rightarrow> (expect \<times> frame list) option" where
  "close_value v stack t =
     (case stack of
        [] \<Rightarrow> None
      | ArrayFrame es # stack' \<Rightarrow>
          if t = Comma then Some (ExpValue, ArrayFrame (v # es) # stack')
          else if t = RBracket then Some (ExpAfter (JArray (rev (v # es))), stack')
          else None
      | ObjectFrame members k # stack' \<Rightarrow>
          if t = Comma then Some (ExpKey ((k, v) # members), stack')
          else if t = RBrace then Some (ExpAfter (JObject (rev ((k, v) # members))), stack')
          else None)"

definition parse_step :: "expect \<times> frame list \<Rightarrow> token \<Rightarrow> (expect \<times> frame list) option" where
  "parse_step s t =
     (case s of
        (ExpValue, stack) \<Rightarrow> start_value t stack
      | (ExpValueOrClose, stack) \<Rightarrow>
          if t = RBracket then Some (ExpAfter (JArray []), tl stack) else start_value t stack
      | (ExpKeyOrClose, stack) \<Rightarrow>
          (case t of
             RBrace \<Rightarrow> Some (ExpAfter (JObject []), stack)
           | TString k \<Rightarrow> Some (ExpColon [] k, stack)
           | _ \<Rightarrow> None)
      | (ExpKey members, stack) \<Rightarrow>
          (case t of TString k \<Rightarrow> Some (ExpColon members k, stack) | _ \<Rightarrow> None)
      | (ExpColon members k, stack) \<Rightarrow>
          if t = Colon then Some (ExpValue, ObjectFrame members k # stack) else None
      | (ExpAfter v, stack) \<Rightarrow> close_value v stack t)"

fun parse_tokens :: "expect \<times> frame list \<Rightarrow> token list \<Rightarrow> json option" where
  "parse_tokens s [] = (case s of (ExpAfter v, []) \<Rightarrow> Some v | _ \<Rightarrow> None)"
| "parse_tokens s (t # ts) = (case parse_step s t of None \<Rightarrow> None | Some s' \<Rightarrow> parse_tokens s' ts)"

definition json_parse :: "string \<Rightarrow> json option" where
  "json_parse s = (case lex s of None \<Rightarrow> None | Some ts \<Rightarrow> parse_tokens (ExpValue, []) ts)"

text \<open>\<^verbatim>\<open>JSON.stringify(value, null, indent)\<close> on the values above.\<close>

definition hex_digit :: "nat \<Rightarrow> char" where
  "hex_digit n = (if n < 10 then char_of (48 + n) else char_of (87 + n))"

definition quote_char :: "char \<Rightarrow> string" where
  "quote_char c =
     (if c = CHR 0x22 then [CHR 0x5C, CHR 0x22]
      else if c = CHR 0x5C then [CHR 0x5C, CHR 0x5C]
      else if c = CHR 0x08 then [CHR 0x5C, CHR ''b'']
      else if c = CHR 0x0C then [CHR 0x5C, CHR ''f'']
      else if c = CHR 0x0A then [CHR 0x5C, CHR ''n'']
      else if c = CHR 0x0D then [CHR 0x5C, CHR ''r'']
      else if c = CHR 0x09 then [CHR 0x5C, CHR ''t'']
      else if (of_char c :: nat) < 32 then
        [CHR 0x5C, CHR ''u'', CHR ''0'', CHR ''0'', hex_digit (of_char c div 16), hex_digit (of_char c mod 16)]
      else [c])"

definition quote :: "string \<Rightarrow> string" where
  "quote s = [CHR 0x22] @ concat (map quote_char s) @ [CHR 0x22]"

fun json_stringify_at :: "nat \<Rightarrow> nat \<Rightarrow> json \<Rightarrow> string" where
  "json_stringify_at indent depth JNull = ''null''"
| "json_stringify_at indent depth (JBool b) = (if b then ''true'' else ''false'')"
| "json_stringify_at indent depth (JNumber n) = n"
| "json_stringify_at indent depth (JString s) = quote s"
| "json_stringify_at indent depth (JArray xs) =
     (if xs = [] then ''[]''
      else if indent = 0 then
        ''['' @ join '','' (map (json_stringify_at indent (Suc depth)) xs) @ '']''
      else
        ''[\<newline>'' @ replicate (indent * Suc depth) CHR '' '' @
        join ('',\<newline>'' @ replicate (indent * Suc depth) CHR '' '')
          (map (json_stringify_at indent (Suc depth)) xs) @
        ''\<newline>'' @ replicate (indent * depth) CHR '' '' @ '']'')"
| "json_stringify_at indent depth (JObject members) =
     (if members = [] then ''{}''
      else if indent = 0 then
        ''{'' @ join '',''
          (map (\<lambda>(k, v). quote k @ '':'' @ json_stringify_at indent (Suc depth) v) members) @ ''}''
      else
        ''{\<newline>'' @ replicate (indent * Suc depth) CHR '' '' @
        join ('',\<newline>'' @ replicate (indent * Suc depth) CHR '' '')
          (map (\<lambda>(k, v). quote k @ '': '' @ json_stringify_at indent (Suc depth) v) members) @
        ''\<newline>'' @ replicate (indent * depth) CHR '' '' @ ''}'')"

definition json_stringify :: "json \<Rightarrow> nat \<Rightarrow> string" where
  "json_stringify v indent = json_stringify_at indent 0 v"

text \<open>
  The two readings of a number, exact on the lexemes that are already in the form
  \<^verbatim>\<open>Number.prototype.toString\<close> prints and do not underflow: the lexeme itself, and zero
  when every digit before the exponent is a zero.
\<close>

definition number_toString :: "string \<Rightarrow> string" where
  "number_toString n = n"

definition number_isZero :: "string \<Rightarrow> bool" where
  "number_isZero n =
     list_all (\<lambda>c. c = CHR ''0'' \<or> c = CHR ''-'' \<or> c = CHR ''.'')
       (takeWhile (\<lambda>c. c \<noteq> CHR ''e'' \<and> c \<noteq> CHR ''E'') n)"

text \<open>
  A platform with these functions, for a given network: \<open>net\<close> answers a \<^verbatim>\<open>fetch\<close>,
  \<open>sdk\<close> a content generation.
\<close>

definition platform_of ::
  "(http_request \<Rightarrow> js_error + http_response) \<Rightarrow>
   (GoogleGenAI \<Rightarrow> gemini_request \<Rightarrow> js_error + string option) \<Rightarrow> platform" where
  "platform_of net sdk =
     \<lparr>fetch = net, generateContent = sdk, JSON_parse = json_parse,
      JSON_stringify = json_stringify, Number_toString = number_toString,
      Number_isZero = number_isZero\<rparr>"

section \<open>Concrete inputs\<close>

text \<open>
  The transcript and checklist of the specification's end-to-end scenario, settings with
  every field filled in, and networks that answer every call the same way.
\<close>

definition example_transcript :: "TranscriptEntry list" where
  "example_transcript =
     [\<lparr>timestamp = ''00:02.150'', speaker = ''Speaker 1'', text = ''Let's discuss scalability.''\<rparr>]"

definition example_settings :: "string \<Rightarrow> LlmSettings" where
  "example_settings p =
     \<lparr>provider = p, openAiApiKey = ''sk-test'', ollamaUrl = ''http://localhost:11434'',
      ollamaModel = ''llama3'', lmStudioUrl = ''http://localhost:1234''\<rparr>"

definition example_state :: "string \<Rightarrow> js_state" where
  "example_state p =
     \<lparr>transcript = example_transcript, checklist = ''- Scalability'',
      settings = example_settings p, requests = [], console = []\<rparr>"

definition example_ai :: GoogleGenAI where
  "example_ai = \<lparr>apiKey = ''test-key''\<rparr>"

definition net_down :: "http_request \<Rightarrow> js_error + http_response" where
  "net_down req = Inl (Rejected ''Failed to fetch'')"

definition sdk_down :: "GoogleGenAI \<Rightarrow> gemini_request \<Rightarrow> js_error + string option" where
  "sdk_down ai req = Inl (Rejected ''Failed to fetch'')"

text \<open>
  A stub server: it answers the Ollama endpoint with \<open>{"message":{"content":c}}\<close>
  and any other with \<open>{"choices":[{"message":{"content":c}}]}\<close>.
\<close>

definition ollama_body :: "string \<Rightarrow> string" where
  "ollama_body c =
     json_stringify (JObject [
       (''message'', JObject [(''content'', JString c)])]) 0"

definition chat_completion_body :: "string \<Rightarrow> string" where
  "chat_completion_body c =
     json_stringify (JObject [
       (''choices'', JArray [JObject [
          (''message'', JObject [(''content'', JString c)])]])]) 0"

definition net_reply :: "string \<Rightarrow> http_request \<Rightarrow> js_error + http_response" where
  "net_reply c req =
     Inr \<lparr>resp_ok = True,
          resp_body = (if req_url req = ''http://localhost:11434/api/chat'' then ollama_body c
                       else chat_completion_body c)\<rparr>"

definition sdk_reply :: "string \<Rightarrow> GoogleGenAI \<Rightarrow> gemini_request \<Rightarrow> js_error + string option" where
  "sdk_reply t ai req = Inr (Some t)"

text \<open>The response of the end-to-end scenario, as text and as the value it denotes.\<close>

definition example_result_text :: string where
  "example_result_text =
     ''{\"summary\":\"Discussed scalability\",\"actionItems\":[],\"missingPoints\":[]}''"

definition example_result :: json where
  "example_result =
     JObject [(''summary'', JString ''Discussed scalability''),
              (''actionItems'', JArray []), (''missingPoints'', JArray [])]"

section \<open>What a call does to the state\<close>

lemma analyzeWithGemini_state:
  "snd (analyzeWithGemini pf ai st) = issue (GenerateContent ai (geminiRequest st)) st"
  by (simp add: analyzeWithGemini_def Let_def split: sum.splits option.splits)

lemma analyzeWithOpenAI_state:
  "snd (analyzeWithOpenAI pf st) =
     (if openAiApiKey (settings st) = [] then st else issue (Fetch (openAiRequest pf st)) st)"
  by (simp add: analyzeWithOpenAI_def Let_def split: sum.splits option.splits)

lemma analyzeWithOllama_state:
  "snd (analyzeWithOllama pf st) =
     (if ollamaUrl (settings st) = [] \<or> ollamaModel (settings st) = [] then st
      else issue (Fetch (ollamaRequest pf st)) st)"
  by (simp add: analyzeWithOllama_def Let_def split: sum.splits option.splits)

lemma analyzeWithLmStudio_state:
  "snd (analyzeWithLmStudio pf st) =
     (if lmStudioUrl (settings st) = [] then st else issue (Fetch (lmStudioRequest pf st)) st)"
  by (simp add: analyzeWithLmStudio_def Let_def split: sum.splits option.splits)

lemma issue_fields:
  "transcript (issue r st) = transcript st"
  "checklist (issue r st) = checklist st"
  "settings (issue r st) = settings st"
  "console (issue r st) = console st"
  "requests (issue r st) = requests st @ [r]"
  by (simp_all add: issue_def)

lemma dispatch_state:
  "snd (dispatch pf ai st) =
     (if provider (settings st) = ''gemini'' then issue (GenerateContent ai (geminiRequest st)) st
      else if provider (settings st) = ''openai'' then
        (if openAiApiKey (settings st) = [] then st else issue (Fetch (openAiRequest pf st)) st)
      else if provider (settings st) = ''ollama'' then
        (if ollamaUrl (settings st) = [] \<or> ollamaModel (settings st) = [] then st
         else issue (Fetch (ollamaRequest pf st)) st)
      else if provider (settings st) = ''lmstudio'' then
        (if lmStudioUrl (settings st) = [] then st else issue (Fetch (lmStudioRequest pf st)) st)
      else st)"
  unfolding dispatch_def
  by (simp only: analyzeWithGemini_state analyzeWithOpenAI_state analyzeWithOllama_state
        analyzeWithLmStudio_state snd_conv if_distrib [of snd] cong: if_cong)

lemma dispatch_frame:
  "transcript (snd (dispatch pf ai st)) = transcript st"
  "checklist (snd (dispatch pf ai st)) = checklist st"
  "settings (snd (dispatch pf ai st)) = settings st"
  "console (snd (dispatch pf ai st)) = console st"
  by (simp_all add: dispatch_state issue_fields)

lemma analyzeTranscript_cases:
  "analyzeTranscript pf ai st =
     (case fst (dispatch pf ai st) of
        Inr result \<Rightarrow> (Inr result, snd (dispatch pf ai st))
      | Inl e \<Rightarrow>
          (Inl (failure_message (provider (settings st))),
           (snd (dispatch pf ai st))\<lparr>console := console st @
              [ConsoleError (''Error calling '' @ provider (settings st) @ '' API:'') e]\<rparr>))"
proof (cases "dispatch pf ai st")
  case (Pair r st1)
  then have "st1 = snd (dispatch pf ai st)" by simp
  then have "settings st1 = settings st" "console st1 = console st"
    by (simp_all add: dispatch_frame)
  with Pair show ?thesis
    by (simp add: analyzeTranscript_def split: sum.splits)
qed

lemma analyzeTranscript_requests:
  "requests (snd (analyzeTranscript pf ai st)) = requests (snd (dispatch pf ai st))"
  by (simp add: analyzeTranscript_cases split: sum.splits)

section \<open>Texts within texts\<close>

lemma starts_with_append: "starts_with (p @ s) p"
  by (induction p) auto

lemma contains_prefix: "contains (p @ s) p"
proof (cases "p @ s")
  case Nil
  then show ?thesis by simp
next
  case (Cons c cs)
  have "starts_with (p @ s) p" by (rule starts_with_append)
  with Cons show ?thesis by simp
qed

lemma contains_append_left: "contains s p \<Longrightarrow> contains (a @ s) p"
  by (induction a) auto

lemma contains_middle: "contains (a @ p @ b) p"
  by (simp add: contains_append_left contains_prefix)

section \<open>What an adapter returns\<close>

lemma parse_result_string:
  "parse_result pf (Some (JString s)) =
     (case JSON_parse pf s of None \<Rightarrow> Inl SyntaxError | Some v \<Rightarrow> Inr v)"
  by (simp add: parse_result_def ToString_def)

lemma analyzeWithGemini_result:
  assumes "generateContent pf ai (geminiRequest st) = Inr (Some t)"
  shows "fst (analyzeWithGemini pf ai st) = parse_result pf (Some (JString (trim t)))"
  using assms by (simp add: analyzeWithGemini_def Let_def)

lemma analyzeWithOpenAI_result:
  assumes "openAiApiKey (settings st) \<noteq> []"
    and "fetch pf (openAiRequest pf st) = Inr r"
    and "resp_ok r"
    and "JSON_parse pf (resp_body r) = Some d"
    and "choices0_message_content d = Inr c"
  shows "fst (analyzeWithOpenAI pf st) = parse_result pf c"
  using assms by (simp add: analyzeWithOpenAI_def Let_def response_json_def)

lemma analyzeWithOllama_result:
  assumes "ollamaUrl (settings st) \<noteq> []"
    and "ollamaModel (settings st) \<noteq> []"
    and "fetch pf (ollamaRequest pf st) = Inr r"
    and "resp_ok r"
    and "JSON_parse pf (resp_body r) = Some d"
    and "message_content d = Inr c"
  shows "fst (analyzeWithOllama pf st) = parse_result pf c"
  using assms by (simp add: analyzeWithOllama_def Let_def response_json_def)

lemma analyzeWithLmStudio_result:
  assumes "lmStudioUrl (settings st) \<noteq> []"
    and "fetch pf (lmStudioRequest pf st) = Inr r"
    and "resp_ok r"
    and "JSON_parse pf (resp_body r) = Some d"
    and "choices0_message_content d = Inr c"
  shows "fst (analyzeWithLmStudio pf st) = parse_fenced_result pf c"
  using assms by (simp add: analyzeWithLmStudio_def Let_def response_json_def)

lemma parse_fenced_result_string:
  "parse_fenced_result pf (Some (JString s)) =
     (case JSON_parse pf (trim (replace_fences s)) of None \<Rightarrow> Inl SyntaxError | Some v \<Rightarrow> Inr v)"
  by (simp add: parse_fenced_result_def parse_result_string)

lemma analyzeTranscript_success:
  "fst (dispatch pf ai st) = Inr v \<Longrightarrow> fst (analyzeTranscript pf ai st) = Inr v"
  by (simp add: analyzeTranscript_cases)

subsection \<open>The stub server\<close>

lemma summary_only_parsed:
  "json_parse ''{\"summary\":\"ok\"}'' = Some (JObject [(''summary'', JString ''ok'')])"
  by code_simp

lemma summary_only_trimmed: "trim ''{\"summary\":\"ok\"}'' = ''{\"summary\":\"ok\"}''"
  by (simp add: trim_def is_space_def)

lemma ollama_body_parsed:
  "json_parse (ollama_body ''{\"summary\":\"ok\"}'') =
     Some (JObject [(''message'', JObject [(''content'', JString ''{\"summary\":\"ok\"}'')])])"
  unfolding ollama_body_def by code_simp

lemma chat_completion_body_parsed:
  "json_parse (chat_completion_body ''{\"summary\":\"ok\"}'') =
     Some (JObject [(''choices'', JArray [JObject [(''message'', JObject [
        (''content'', JString ''{\"summary\":\"ok\"}'')])]])])"
  unfolding chat_completion_body_def by code_simp

lemma gemini_reply:
  "fst (analyzeWithGemini (platform_of net (sdk_reply t)) ai st) =
     (case json_parse (trim t) of None \<Rightarrow> Inl SyntaxError | Some v \<Rightarrow> Inr v)"
proof -
  have "generateContent (platform_of net (sdk_reply t)) ai (geminiRequest st) = Inr (Some t)"
    by (simp add: platform_of_def sdk_reply_def)
  from analyzeWithGemini_result [OF this] show ?thesis
    by (simp add: parse_result_string platform_of_def)
qed

lemma openai_reply:
  assumes "openAiApiKey (settings st) \<noteq> []"
    and "json_parse (chat_completion_body t) = Some d"
    and "choices0_message_content d = Inr c"
  shows "fst (analyzeWithOpenAI (platform_of (net_reply t) sdk) st) =
           parse_result (platform_of (net_reply t) sdk) c"
proof -
  let ?pf = "platform_of (net_reply t) sdk"
  let ?r = "\<lparr>resp_ok = True, resp_body = chat_completion_body t\<rparr>"
  have "fetch ?pf (openAiRequest ?pf st) = Inr ?r"
    by (simp add: platform_of_def net_reply_def openAiRequest_def Let_def)
  moreover have "JSON_parse ?pf (resp_body ?r) = Some d"
    using assms(2) by (simp add: platform_of_def)
  ultimately show ?thesis
    using assms(1,3) by (intro analyzeWithOpenAI_result [where r = ?r and d = d]) simp_all
qed

lemma lmstudio_reply:
  assumes "lmStudioUrl (settings st) = ''http://localhost:1234''"
    and "json_parse (chat_completion_body t) = Some d"
    and "choices0_message_content d = Inr c"
  shows "fst (analyzeWithLmStudio (platform_of (net_reply t) sdk) st) =
           parse_fenced_result (platform_of (net_reply t) sdk) c"
proof -
  let ?pf = "platform_of (net_reply t) sdk"
  let ?r = "\<lparr>resp_ok = True, resp_body = chat_completion_body t\<rparr>"
  have "fetch ?pf (lmStudioRequest ?pf st) = Inr ?r"
    using assms(1) by (simp add: platform_of_def net_reply_def lmStudioRequest_def Let_def)
  moreover have "JSON_parse ?pf (resp_body ?r) = Some d"
    using assms(2) by (simp add: platform_of_def)
  moreover have "lmStudioUrl (settings st) \<noteq> []" using assms(1) by simp
  ultimately show ?thesis
    using assms(3) by (intro analyzeWithLmStudio_result [where r = ?r and d = d]) simp_all
qed

lemma ollama_reply:
  assumes "ollamaUrl (settings st) = ''http://localhost:11434''"
    and "ollamaModel (settings st) \<noteq> []"
    and "json_parse (ollama_body t) = Some d"
    and "message_content d = Inr c"
  shows "fst (analyzeWithOllama (platform_of (net_reply t) sdk) st) =
           parse_result (platform_of (net_reply t) sdk) c"
proof -
  let ?pf = "platform_of (net_reply t) sdk"
  let ?r = "\<lparr>resp_ok = True, resp_body = ollama_body t\<rparr>"
  have "fetch ?pf (ollamaRequest ?pf st) = Inr ?r"
    using assms(1) by (simp add: platform_of_def net_reply_def ollamaRequest_def Let_def)
  moreover have "JSON_parse ?pf (resp_body ?r) = Some d"
    using assms(3) by (simp add: platform_of_def)
  moreover have "ollamaUrl (settings st) \<noteq> []" using assms(1) by simp
  ultimately show ?thesis
    using assms(2,4) by (intro analyzeWithOllama_result [where r = ?r and d = d]) simp_all
qed

subsection \<open>The end-to-end scenario\<close>

text \<open>
  The scenario of the specification: one entry, the checklist \<open>- Scalability\<close>, Ollama
  selected, and a stub server answering with the result as the content of its message.
\<close>

lemma example_result_parsed: "json_parse example_result_text = Some example_result"
  unfolding example_result_text_def example_result_def by code_simp

lemma example_ollama_body_parsed:
  "json_parse (ollama_body example_result_text) =
     Some (JObject [(''message'', JObject [(''content'', JString example_result_text)])])"
  unfolding ollama_body_def example_result_text_def by code_simp

lemma end_to_end_scenario:
  "fst (analyzeTranscript (platform_of (net_reply example_result_text) sdk_down) example_ai
          (example_state ''ollama'')) = Inr example_result"
proof -
  have "fst (analyzeWithOllama (platform_of (net_reply example_result_text) sdk_down)
          (example_state ''ollama'')) =
        parse_result (platform_of (net_reply example_result_text) sdk_down)
          (Some (JString example_result_text))"
    by (rule ollama_reply [OF _ _ example_ollama_body_parsed])
       (simp_all add: example_state_def example_settings_def message_content_def)
  then have "fst (dispatch (platform_of (net_reply example_result_text) sdk_down) example_ai
          (example_state ''ollama'')) = Inr example_result"
    by (simp add: dispatch_def example_state_def example_settings_def parse_result_string
          platform_of_def example_result_parsed)
  then show ?thesis by (rule analyzeTranscript_success)
qed

section \<open>The inputs of a call\<close>

text \<open>
  C10: a call of \<^verbatim>\<open>analyzeTranscript\<close> leaves the transcript with its entries, the
  checklist and the settings as they were, whether it succeeds or fails, and so does the
  adapter it dispatches to; the calls issued and the console are all that changes.
\<close>

theorem analyzeTranscript_inputs_unchanged:
  "transcript (snd (analyzeTranscript pf ai st)) = transcript st \<and>
   checklist (snd (analyzeTranscript pf ai st)) = checklist st \<and>
   settings (snd (analyzeTranscript pf ai st)) = settings st \<and>
   transcript (snd (dispatch pf ai st)) = transcript st \<and>
   checklist (snd (dispatch pf ai st)) = checklist st \<and>
   settings (snd (dispatch pf ai st)) = settings st"
  by (simp add: analyzeTranscript_cases dispatch_frame split: sum.splits)

section \<open>Empty inputs\<close>

text \<open>
  C1 (as stated): \<^verbatim>\<open>analyzeTranscript\<close> rejects an empty transcript, and a blank checklist,
  before any network call. It checks neither: with Ollama configured, the call with an empty
  transcript and the call with an empty checklist each issue their request.
\<close>

theorem empty_input_counterexample:
  "length (requests (snd (analyzeTranscript (platform_of net_down sdk_down) example_ai
     ((example_state ''ollama'')\<lparr>transcript := []\<rparr>)))) = 1 \<and>
   length (requests (snd (analyzeTranscript (platform_of net_down sdk_down) example_ai
     ((example_state ''ollama'')\<lparr>checklist := []\<rparr>)))) = 1"
  by (simp add: analyzeTranscript_requests dispatch_state issue_fields
        example_state_def example_settings_def)

text \<open>
  C1 (amended): the empty inputs are rejected by the callers in the user interface, not by
  \<^verbatim>\<open>analyzeTranscript\<close>. For every checklist and settings, \<^verbatim>\<open>handleReview\<close> on a missing or
  empty transcript sets the error \<open>A transcript must be available before analysis.\<close> and
  changes nothing else, so it issues no network call; for every transcript and settings,
  \<^verbatim>\<open>handleSubmit\<close> on a checklist that is empty or all whitespace does nothing at all.
\<close>

theorem empty_input_rejected_by_callers:
  "(app_transcript app = None \<or> app_transcript app = Some [] \<longrightarrow>
      handleReview pf ai app =
        app\<lparr>app_error := Some ''A transcript must be available before analysis.''\<rparr> \<and>
      app_requests (handleReview pf ai app) = app_requests app) \<and>
   (trim (app_checklist app) = [] \<longrightarrow>
      handleSubmit pf ai app = app \<and>
      app_requests (handleSubmit pf ai app) = app_requests app)"
  by (auto simp: handleReview_def handleSubmit_def)

theorem empty_input_rejected_by_callers_witness:
  "trim ''  \<newline>'' = [] \<and>
   handleReview (platform_of net_down sdk_down) example_ai
     \<lparr>app_transcript = Some [], app_checklist = ''  \<newline>'',
      llmSettings = example_settings ''ollama'', analysisResult = None, isLoading = False,
      app_error = None, app_requests = [], app_console = []\<rparr> =
     \<lparr>app_transcript = Some [], app_checklist = ''  \<newline>'',
      llmSettings = example_settings ''ollama'', analysisResult = None, isLoading = False,
      app_error = Some ''A transcript must be available before analysis.'',
      app_requests = [], app_console = []\<rparr> \<and>
   handleSubmit (platform_of net_down sdk_down) example_ai
     \<lparr>app_transcript = Some [], app_checklist = ''  \<newline>'',
      llmSettings = example_settings ''ollama'', analysisResult = None, isLoading = False,
      app_error = None, app_requests = [], app_console = []\<rparr> =
     \<lparr>app_transcript = Some [], app_checklist = ''  \<newline>'',
      llmSettings = example_settings ''ollama'', analysisResult = None, isLoading = False,
      app_error = None, app_requests = [], app_console = []\<rparr>"
proof -
  have b: "trim ''  \<newline>'' = []"
    by (simp add: trim_def is_space_def)
  show ?thesis
    using b empty_input_rejected_by_callers [of
      "\<lparr>app_transcript = Some [], app_checklist = ''  \<newline>'',
        llmSettings = example_settings ''ollama'', analysisResult = None, isLoading = False,
        app_error = None, app_requests = [], app_console = []\<rparr>"
      "platform_of net_down sdk_down" example_ai]
    by simp
qed

section \<open>A response without the required fields\<close>

text \<open>
  C2 (as stated): a response that parses as JSON but lacks \<^verbatim>\<open>actionItems\<close> and
  \<^verbatim>\<open>missingPoints\<close> makes the call fail. It does not: on the Gemini path and on the OpenAI
  path, the response \<open>{"summary":"ok"}\<close> is returned to the caller as the result, an object
  with the one member \<^verbatim>\<open>summary\<close>.
\<close>

theorem missing_fields_counterexample:
  "fst (analyzeTranscript (platform_of net_down (sdk_reply ''{\"summary\":\"ok\"}'')) example_ai
          (example_state ''gemini'')) =
     Inr (JObject [(''summary'', JString ''ok'')]) \<and>
   fst (analyzeTranscript (platform_of (net_reply ''{\"summary\":\"ok\"}'') sdk_down) example_ai
          (example_state ''openai'')) =
     Inr (JObject [(''summary'', JString ''ok'')]) \<and>
   \<not> has_required_fields (JObject [(''summary'', JString ''ok'')])"
proof -
  have "fst (dispatch (platform_of net_down (sdk_reply ''{\"summary\":\"ok\"}'')) example_ai
          (example_state ''gemini'')) = Inr (JObject [(''summary'', JString ''ok'')])"
    by (simp add: dispatch_def example_state_def example_settings_def gemini_reply
          summary_only_trimmed summary_only_parsed)
  then have g: "fst (analyzeTranscript (platform_of net_down (sdk_reply ''{\"summary\":\"ok\"}''))
      example_ai (example_state ''gemini'')) = Inr (JObject [(''summary'', JString ''ok'')])"
    by (rule analyzeTranscript_success)
  have "fst (analyzeWithOpenAI (platform_of (net_reply ''{\"summary\":\"ok\"}'') sdk_down)
          (example_state ''openai'')) =
        parse_result (platform_of (net_reply ''{\"summary\":\"ok\"}'') sdk_down)
          (Some (JString ''{\"summary\":\"ok\"}''))"
    by (rule openai_reply [OF _ chat_completion_body_parsed])
       (simp_all add: example_state_def example_settings_def choices0_message_content_def)
  then have "fst (dispatch (platform_of (net_reply ''{\"summary\":\"ok\"}'') sdk_down) example_ai
          (example_state ''openai'')) = Inr (JObject [(''summary'', JString ''ok'')])"
    by (simp add: dispatch_def example_state_def example_settings_def parse_result_string
          platform_of_def summary_only_parsed)
  then have o: "fst (analyzeTranscript (platform_of (net_reply ''{\"summary\":\"ok\"}'') sdk_down)
      example_ai (example_state ''openai'')) = Inr (JObject [(''summary'', JString ''ok'')])"
    by (rule analyzeTranscript_success)
  have "\<not> has_required_fields (JObject [(''summary'', JString ''ok'')])"
    by (simp add: has_required_fields_def is_array_def)
  with g o show ?thesis by simp
qed

text \<open>
  C2 (amended): on every provider path the value that \<^verbatim>\<open>JSON.parse\<close> yields for the text of
  the response is returned as the result, as it is and whatever fields it has; the step
  fails, with a \<^verbatim>\<open>SyntaxError\<close>, only when the text is not JSON. The text parsed is the
  trimmed response text for Gemini, the content of the message for OpenAI and Ollama, and the
  content with its fence markers removed and trimmed for LM Studio. A result of the adapter
  is the result of \<^verbatim>\<open>analyzeTranscript\<close>.
\<close>

theorem parsed_value_returned_unchecked:
  "(generateContent pf ai (geminiRequest st) = Inr (Some t) \<longrightarrow>
      fst (analyzeWithGemini pf ai st) =
        (case JSON_parse pf (trim t) of None \<Rightarrow> Inl SyntaxError | Some v \<Rightarrow> Inr v)) \<and>
   (openAiApiKey (settings st) \<noteq> [] \<and> fetch pf (openAiRequest pf st) = Inr ra \<and> resp_ok ra \<and>
    JSON_parse pf (resp_body ra) = Some da \<and>
    choices0_message_content da = Inr (Some (JString t)) \<longrightarrow>
      fst (analyzeWithOpenAI pf st) =
        (case JSON_parse pf t of None \<Rightarrow> Inl SyntaxError | Some v \<Rightarrow> Inr v)) \<and>
   (ollamaUrl (settings st) \<noteq> [] \<and> ollamaModel (settings st) \<noteq> [] \<and>
    fetch pf (ollamaRequest pf st) = Inr rb \<and> resp_ok rb \<and>
    JSON_parse pf (resp_body rb) = Some db \<and>
    message_content db = Inr (Some (JString t)) \<longrightarrow>
      fst (analyzeWithOllama pf st) =
        (case JSON_parse pf t of None \<Rightarrow> Inl SyntaxError | Some v \<Rightarrow> Inr v)) \<and>
   (lmStudioUrl (settings st) \<noteq> [] \<and> fetch pf (lmStudioRequest pf st) = Inr rc \<and> resp_ok rc \<and>
    JSON_parse pf (resp_body rc) = Some dc \<and>
    choices0_message_content dc = Inr (Some (JString t)) \<longrightarrow>
      fst (analyzeWithLmStudio pf st) =
        (case JSON_parse pf (trim (replace_fences t)) of
           None \<Rightarrow> Inl SyntaxError | Some v \<Rightarrow> Inr v)) \<and>
   (fst (dispatch pf ai st) = Inr v \<longrightarrow> fst (analyzeTranscript pf ai st) = Inr v)"
  by (simp add: analyzeWithGemini_result analyzeWithOpenAI_result analyzeWithOllama_result
        analyzeWithLmStudio_result parse_result_string parse_fenced_result_string
        analyzeTranscript_success)

theorem parsed_value_returned_unchecked_witness:
  "fst (analyzeWithGemini
          (platform_of (net_reply ''{\"summary\":\"ok\"}'') (sdk_reply ''{\"summary\":\"ok\"}''))
          example_ai (example_state ''ollama'')) = Inr (JObject [(''summary'', JString ''ok'')]) \<and>
   fst (analyzeWithOpenAI
          (platform_of (net_reply ''{\"summary\":\"ok\"}'') (sdk_reply ''{\"summary\":\"ok\"}''))
          (example_state ''ollama'')) = Inr (JObject [(''summary'', JString ''ok'')]) \<and>
   fst (analyzeWithOllama
          (platform_of (net_reply ''{\"summary\":\"ok\"}'') (sdk_reply ''{\"summary\":\"ok\"}''))
          (example_state ''ollama'')) = Inr (JObject [(''summary'', JString ''ok'')]) \<and>
   fst (analyzeWithLmStudio
          (platform_of (net_reply ''{\"summary\":\"ok\"}'') (sdk_reply ''{\"summary\":\"ok\"}''))
          (example_state ''ollama'')) = Inr (JObject [(''summary'', JString ''ok'')]) \<and>
   fst (analyzeTranscript
          (platform_of (net_reply ''{\"summary\":\"ok\"}'') (sdk_reply ''{\"summary\":\"ok\"}''))
          example_ai (example_state ''ollama'')) = Inr (JObject [(''summary'', JString ''ok'')])"
proof -
  let ?t = "''{\"summary\":\"ok\"}''"
  let ?pf = "platform_of (net_reply ?t) (sdk_reply ?t)"
  let ?st = "example_state ''ollama''"
  let ?rchat = "\<lparr>resp_ok = True, resp_body = chat_completion_body ?t\<rparr>"
  let ?rolla = "\<lparr>resp_ok = True, resp_body = ollama_body ?t\<rparr>"
  let ?dchat = "JObject [(''choices'', JArray [JObject [(''message'', JObject [
        (''content'', JString ?t)])]])]"
  let ?dolla = "JObject [(''message'', JObject [(''content'', JString ?t)])]"
  let ?v = "JObject [(''summary'', JString ''ok'')]"
  note inst = parsed_value_returned_unchecked [where pf = ?pf and ai = example_ai and st = ?st
      and t = ?t and ra = ?rchat and da = ?dchat and rb = ?rolla and db = ?dolla
      and rc = ?rchat and dc = ?dchat and v = ?v]
  have parse: "JSON_parse ?pf ?t = Some ?v" "JSON_parse ?pf (trim ?t) = Some ?v"
    by (simp_all add: platform_of_def summary_only_parsed summary_only_trimmed)
  have clean: "trim (replace_fences ?t) = ?t"
    by (simp add: replace_fences_def is_fence_tail_def trim_def is_space_def)
  have g: "generateContent ?pf example_ai (geminiRequest ?st) = Inr (Some ?t)"
    by (simp add: platform_of_def sdk_reply_def)
  have keys: "openAiApiKey (settings ?st) \<noteq> []" "ollamaUrl (settings ?st) \<noteq> []"
    "ollamaModel (settings ?st) \<noteq> []" "lmStudioUrl (settings ?st) \<noteq> []"
    by (simp_all add: example_state_def example_settings_def)
  have f: "fetch ?pf (openAiRequest ?pf ?st) = Inr ?rchat" "fetch ?pf (ollamaRequest ?pf ?st) = Inr ?rolla"
    "fetch ?pf (lmStudioRequest ?pf ?st) = Inr ?rchat"
    by (simp_all add: platform_of_def net_reply_def openAiRequest_def ollamaRequest_def
          lmStudioRequest_def Let_def example_state_def example_settings_def)
  have d: "JSON_parse ?pf (resp_body ?rchat) = Some ?dchat" "JSON_parse ?pf (resp_body ?rolla) = Some ?dolla"
    by (simp_all add: platform_of_def chat_completion_body_parsed ollama_body_parsed)
  have c: "choices0_message_content ?dchat = Inr (Some (JString ?t))"
    "message_content ?dolla = Inr (Some (JString ?t))"
    by (simp_all add: choices0_message_content_def message_content_def)
  from inst g parse have 1: "fst (analyzeWithGemini ?pf example_ai ?st) = Inr ?v" by simp
  from inst keys f d c parse have 2: "fst (analyzeWithOpenAI ?pf ?st) = Inr ?v" by simp
  from inst keys f d c parse have 3: "fst (analyzeWithOllama ?pf ?st) = Inr ?v" by simp
  from inst keys f d c parse clean have 4: "fst (analyzeWithLmStudio ?pf ?st) = Inr ?v" by simp
  from 3 have "fst (dispatch ?pf example_ai ?st) = Inr ?v"
    by (simp add: dispatch_def example_state_def example_settings_def)
  with inst have 5: "fst (analyzeTranscript ?pf example_ai ?st) = Inr ?v" by blast
  from 1 2 3 4 5 show ?thesis by blast
qed

section \<open>The error a caller sees\<close>

text \<open>
  C3 (as stated): the error surfaced keeps the message of the adapter's error. It does not:
  with the OpenAI key empty, the adapter throws \<open>OpenAI API Key is not configured.\<close> and
  the caller gets a message in which that text does not occur.
\<close>

theorem surfaced_error_counterexample:
  "fst (dispatch (platform_of net_down sdk_down) example_ai
     ((example_state ''openai'')\<lparr>settings := (example_settings ''openai'')\<lparr>openAiApiKey := []\<rparr>\<rparr>)) =
     Inl (Error ''OpenAI API Key is not configured.'') \<and>
   fst (analyzeTranscript (platform_of net_down sdk_down) example_ai
     ((example_state ''openai'')\<lparr>settings := (example_settings ''openai'')\<lparr>openAiApiKey := []\<rparr>\<rparr>)) =
     Inl ''Failed to get analysis from openai. Please check your settings and the console for details.'' \<and>
   \<not> contains
     ''Failed to get analysis from openai. Please check your settings and the console for details.''
     ''OpenAI API Key is not configured.''"
  by (simp add: analyzeTranscript_cases dispatch_def analyzeWithOpenAI_def failure_message_def
        example_state_def example_settings_def)

text \<open>
  C3 (amended): for every failure of an adapter, whatever its kind, and for every provider,
  the caller gets one uniform error, \<open>Failed to get analysis from <provider>. Please check
  your settings and the console for details.\<close>, which names the provider; the adapter's own
  error is written to the console with the label \<open>Error calling <provider> API:\<close> and is
  not part of the error surfaced.
\<close>

theorem surfaced_error_uniform:
  assumes "fst (dispatch pf ai st) = Inl e"
  shows "fst (analyzeTranscript pf ai st) =
           Inl (''Failed to get analysis from '' @ provider (settings st) @
                ''. Please check your settings and the console for details.'') \<and>
         contains (''Failed to get analysis from '' @ provider (settings st) @
                ''. Please check your settings and the console for details.'')
            (provider (settings st)) \<and>
         console (snd (analyzeTranscript pf ai st)) = console st @
           [ConsoleError (''Error calling '' @ provider (settings st) @ '' API:'') e]"
  using assms contains_middle [of "''Failed to get analysis from ''" "provider (settings st)"
      "''. Please check your settings and the console for details.''"]
  by (simp add: analyzeTranscript_cases failure_message_def)

theorem surfaced_error_uniform_witness:
  "fst (dispatch (platform_of net_down sdk_down) example_ai (example_state ''ollama'')) =
     Inl (Rejected ''Failed to fetch'') \<and>
   fst (analyzeTranscript (platform_of net_down sdk_down) example_ai (example_state ''ollama'')) =
     Inl ''Failed to get analysis from ollama. Please check your settings and the console for details.'' \<and>
   console (snd (analyzeTranscript (platform_of net_down sdk_down) example_ai (example_state ''ollama''))) =
     [ConsoleError ''Error calling ollama API:'' (Rejected ''Failed to fetch'')]"
proof -
  have h: "fst (dispatch (platform_of net_down sdk_down) example_ai (example_state ''ollama'')) =
     Inl (Rejected ''Failed to fetch'')"
    by (simp add: dispatch_def analyzeWithOllama_def Let_def platform_of_def net_down_def
          example_state_def example_settings_def)
  show ?thesis
    using h surfaced_error_uniform [OF h]
    by (simp add: example_state_def example_settings_def)
qed

section \<open>An unsupported provider\<close>

text \<open>
  C4 (as stated): with the provider \<open>carrier-pigeon\<close> the call fails with an
  unsupported-provider error. The error the caller gets is the uniform one, in which the
  word \<open>Unsupported\<close> does not occur.
\<close>

theorem unsupported_provider_counterexample:
  "fst (analyzeTranscript (platform_of net_down sdk_down) example_ai (example_state ''carrier-pigeon'')) =
     Inl ''Failed to get analysis from carrier-pigeon. Please check your settings and the console for details.'' \<and>
   \<not> contains
     ''Failed to get analysis from carrier-pigeon. Please check your settings and the console for details.''
     ''Unsupported''"
  by (simp add: analyzeTranscript_cases dispatch_def failure_message_def
        example_state_def example_settings_def)

text \<open>
  C4 (amended): for every settings value whose provider is none of \<open>gemini\<close>, \<open>openai\<close>,
  \<open>ollama\<close>, \<open>lmstudio\<close>, the call fails and issues no network call; the error
  \<open>Unsupported model provider: <provider>\<close> is the one written to the console, and the
  caller gets the uniform error that names the provider.
\<close>

theorem unsupported_provider_fails:
  assumes "provider (settings st) \<notin> {''gemini'', ''openai'', ''ollama'', ''lmstudio''}"
  shows "analyzeTranscript pf ai st =
           (Inl (''Failed to get analysis from '' @ provider (settings st) @
                 ''. Please check your settings and the console for details.''),
            st\<lparr>console := console st @
              [ConsoleError (''Error calling '' @ provider (settings st) @ '' API:'')
                 (Error (''Unsupported model provider: '' @ provider (settings st)))]\<rparr>) \<and>
         requests (snd (analyzeTranscript pf ai st)) = requests st"
  using assms
  by (simp add: analyzeTranscript_def dispatch_def failure_message_def)

theorem unsupported_provider_fails_witness:
  "provider (settings (example_state ''carrier-pigeon'')) = ''carrier-pigeon'' \<and>
   requests (snd (analyzeTranscript (platform_of net_down sdk_down) example_ai
     (example_state ''carrier-pigeon''))) = [] \<and>
   console (snd (analyzeTranscript (platform_of net_down sdk_down) example_ai
     (example_state ''carrier-pigeon''))) =
     [ConsoleError ''Error calling carrier-pigeon API:''
        (Error ''Unsupported model provider: carrier-pigeon'')]"
proof -
  have h: "provider (settings (example_state ''carrier-pigeon'')) \<notin>
      {''gemini'', ''openai'', ''ollama'', ''lmstudio''}"
    by (simp add: example_state_def example_settings_def)
  show ?thesis
    using unsupported_provider_fails [OF h, of "platform_of net_down sdk_down" example_ai]
    by (simp add: example_state_def example_settings_def)
qed

section \<open>Configuration errors\<close>

text \<open>
  C5 (as stated): an adapter whose required setting is blank fails with a configuration
  error before any network call. The adapters test \<^verbatim>\<open>!settings.x\<close>, which is true of the empty
  string only: a key, a URL or a model name made of a space is blank, passes the test, and
  each adapter issues its request.
\<close>

theorem blank_setting_counterexample:
  "trim '' '' = [] \<and>
   length (requests (snd (analyzeWithOpenAI (platform_of net_down sdk_down)
     ((example_state ''openai'')\<lparr>settings := (example_settings ''openai'')\<lparr>openAiApiKey := '' ''\<rparr>\<rparr>)))) = 1 \<and>
   length (requests (snd (analyzeWithOllama (platform_of net_down sdk_down)
     ((example_state ''ollama'')\<lparr>settings := (example_settings ''ollama'')\<lparr>ollamaUrl := '' '',
        ollamaModel := '' ''\<rparr>\<rparr>)))) = 1 \<and>
   length (requests (snd (analyzeWithLmStudio (platform_of net_down sdk_down)
     ((example_state ''lmstudio'')\<lparr>settings := (example_settings ''lmstudio'')\<lparr>lmStudioUrl := '' ''\<rparr>\<rparr>)))) = 1"
  by (simp add: analyzeWithOpenAI_state analyzeWithOllama_state analyzeWithLmStudio_state
        issue_fields example_state_def example_settings_def trim_def is_space_def)

text \<open>
  C5 (amended): for every adapter, if a required settings field for that adapter is the
  empty string (\<^verbatim>\<open>openAiApiKey\<close> for the OpenAI adapter; \<^verbatim>\<open>ollamaUrl\<close> or \<^verbatim>\<open>ollamaModel\<close> for the
  Ollama adapter; \<^verbatim>\<open>lmStudioUrl\<close> for the LM Studio adapter), the adapter fails with its
  configuration error and returns the state it was given, so before issuing any network
  call; with the required fields not empty, whatever they hold, the adapter issues its
  request.
\<close>

theorem empty_setting_rejected:
  "(openAiApiKey (settings st) = [] \<longrightarrow>
      analyzeWithOpenAI pf st = (Inl (Error ''OpenAI API Key is not configured.''), st)) \<and>
   (ollamaUrl (settings st) = [] \<or> ollamaModel (settings st) = [] \<longrightarrow>
      analyzeWithOllama pf st = (Inl (Error ''Ollama URL or model name is not configured.''), st)) \<and>
   (lmStudioUrl (settings st) = [] \<longrightarrow>
      analyzeWithLmStudio pf st = (Inl (Error ''LM Studio URL is not configured.''), st)) \<and>
   (openAiApiKey (settings st) \<noteq> [] \<longrightarrow>
      requests (snd (analyzeWithOpenAI pf st)) = requests st @ [Fetch (openAiRequest pf st)]) \<and>
   (ollamaUrl (settings st) \<noteq> [] \<and> ollamaModel (settings st) \<noteq> [] \<longrightarrow>
      requests (snd (analyzeWithOllama pf st)) = requests st @ [Fetch (ollamaRequest pf st)]) \<and>
   (lmStudioUrl (settings st) \<noteq> [] \<longrightarrow>
      requests (snd (analyzeWithLmStudio pf st)) = requests st @ [Fetch (lmStudioRequest pf st)])"
proof -
  have "analyzeWithOpenAI pf st = (Inl (Error ''OpenAI API Key is not configured.''), st)"
    if "openAiApiKey (settings st) = []"
    using that by (simp add: analyzeWithOpenAI_def)
  moreover have "analyzeWithOllama pf st =
      (Inl (Error ''Ollama URL or model name is not configured.''), st)"
    if "ollamaUrl (settings st) = [] \<or> ollamaModel (settings st) = []"
    using that by (simp add: analyzeWithOllama_def)
  moreover have "analyzeWithLmStudio pf st = (Inl (Error ''LM Studio URL is not configured.''), st)"
    if "lmStudioUrl (settings st) = []"
    using that by (simp add: analyzeWithLmStudio_def)
  moreover have "requests (snd (analyzeWithOpenAI pf st)) =
      requests st @ [Fetch (openAiRequest pf st)]"
    if "openAiApiKey (settings st) \<noteq> []"
    using that by (simp add: analyzeWithOpenAI_state issue_fields)
  moreover have "requests (snd (analyzeWithOllama pf st)) =
      requests st @ [Fetch (ollamaRequest pf st)]"
    if "ollamaUrl (settings st) \<noteq> [] \<and> ollamaModel (settings st) \<noteq> []"
    using that by (simp add: analyzeWithOllama_state issue_fields)
  moreover have "requests (snd (analyzeWithLmStudio pf st)) =
      requests st @ [Fetch (lmStudioRequest pf st)]"
    if "lmStudioUrl (settings st) \<noteq> []"
    using that by (simp add: analyzeWithLmStudio_state issue_fields)
  ultimately show ?thesis by blast
qed

theorem empty_setting_rejected_witness:
  "analyzeWithOpenAI (platform_of net_down sdk_down)
     ((example_state ''openai'')\<lparr>settings := \<lparr>provider = ''openai'', openAiApiKey = [],
        ollamaUrl = ''http://localhost:11434'', ollamaModel = [], lmStudioUrl = []\<rparr>\<rparr>) =
     (Inl (Error ''OpenAI API Key is not configured.''),
      (example_state ''openai'')\<lparr>settings := \<lparr>provider = ''openai'', openAiApiKey = [],
        ollamaUrl = ''http://localhost:11434'', ollamaModel = [], lmStudioUrl = []\<rparr>\<rparr>) \<and>
   analyzeWithOllama (platform_of net_down sdk_down)
     ((example_state ''openai'')\<lparr>settings := \<lparr>provider = ''openai'', openAiApiKey = [],
        ollamaUrl = ''http://localhost:11434'', ollamaModel = [], lmStudioUrl = []\<rparr>\<rparr>) =
     (Inl (Error ''Ollama URL or model name is not configured.''),
      (example_state ''openai'')\<lparr>settings := \<lparr>provider = ''openai'', openAiApiKey = [],
        ollamaUrl = ''http://localhost:11434'', ollamaModel = [], lmStudioUrl = []\<rparr>\<rparr>) \<and>
   analyzeWithLmStudio (platform_of net_down sdk_down)
     ((example_state ''openai'')\<lparr>settings := \<lparr>provider = ''openai'', openAiApiKey = [],
        ollamaUrl = ''http://localhost:11434'', ollamaModel = [], lmStudioUrl = []\<rparr>\<rparr>) =
     (Inl (Error ''LM Studio URL is not configured.''),
      (example_state ''openai'')\<lparr>settings := \<lparr>provider = ''openai'', openAiApiKey = [],
        ollamaUrl = ''http://localhost:11434'', ollamaModel = [], lmStudioUrl = []\<rparr>\<rparr>) \<and>
   length (requests (snd (analyzeWithOpenAI (platform_of net_down sdk_down)
     (example_state ''openai'')))) = 1 \<and>
   length (requests (snd (analyzeWithOllama (platform_of net_down sdk_down)
     (example_state ''openai'')))) = 1 \<and>
   length (requests (snd (analyzeWithLmStudio (platform_of net_down sdk_down)
     (example_state ''openai'')))) = 1"
proof -
  let ?pf = "platform_of net_down sdk_down"
  let ?empty = "(example_state ''openai'')\<lparr>settings := \<lparr>provider = ''openai'', openAiApiKey = [],
        ollamaUrl = ''http://localhost:11434'', ollamaModel = [], lmStudioUrl = []\<rparr>\<rparr>"
  let ?full = "example_state ''openai''"
  have e: "openAiApiKey (settings ?empty) = []" "ollamaModel (settings ?empty) = []"
    "lmStudioUrl (settings ?empty) = []"
    by simp_all
  have f: "openAiApiKey (settings ?full) \<noteq> []" "ollamaUrl (settings ?full) \<noteq> []"
    "ollamaModel (settings ?full) \<noteq> []" "lmStudioUrl (settings ?full) \<noteq> []"
    by (simp_all add: example_state_def example_settings_def)
  have r: "requests ?full = []" by (simp add: example_state_def)
  from empty_setting_rejected [of ?empty ?pf] e
  have 1: "analyzeWithOpenAI ?pf ?empty = (Inl (Error ''OpenAI API Key is not configured.''), ?empty)"
    and 2: "analyzeWithOllama ?pf ?empty =
      (Inl (Error ''Ollama URL or model name is not configured.''), ?empty)"
    and 3: "analyzeWithLmStudio ?pf ?empty = (Inl (Error ''LM Studio URL is not configured.''), ?empty)"
    by blast+
  from empty_setting_rejected [of ?full ?pf] f r
  have 4: "length (requests (snd (analyzeWithOpenAI ?pf ?full))) = 1"
    and 5: "length (requests (snd (analyzeWithOllama ?pf ?full))) = 1"
    and 6: "length (requests (snd (analyzeWithLmStudio ?pf ?full))) = 1"
    by simp_all
  from 1 2 3 4 5 6 show ?thesis by blast
qed

section \<open>Dispatch to Ollama\<close>

text \<open>
  C6: with \<^verbatim>\<open>provider = "ollama"\<close> and a non-empty \<^verbatim>\<open>ollamaUrl\<close> and \<^verbatim>\<open>ollamaModel\<close>, a call
  of \<^verbatim>\<open>analyzeTranscript\<close> issues exactly one request and no other: a POST to
  \<open>{ollamaUrl}/api/chat\<close> whose body is the serialisation of
  \<open>{model, messages: [{role: "user", content}], format: "json", stream: false}\<close>.
\<close>

theorem ollama_issues_one_request:
  assumes "provider (settings st) = ''ollama''"
    and "ollamaUrl (settings st) \<noteq> []"
    and "ollamaModel (settings st) \<noteq> []"
  shows "requests (snd (analyzeTranscript pf ai st)) = requests st @
     [Fetch \<lparr>req_url = ollamaUrl (settings st) @ ''/api/chat'',
             req_method = ''POST'',
             req_headers = [(''Content-Type'', ''application/json'')],
             req_body = JSON_stringify pf (JObject [
               (''model'', JString (ollamaModel (settings st))),
               (''messages'', JArray [JObject [
                  (''role'', JString ''user''),
                  (''content'', JString
                     (getBasePrompt (formatTranscript (transcript st)) (checklist st) @
                      ''\<newline>\<newline>'' @ getJsonSchemaPrompt pf))]]),
               (''format'', JString ''json''),
               (''stream'', JBool False)]) 0\<rparr>]"
  using assms
  by (simp add: analyzeTranscript_requests dispatch_state issue_fields ollamaRequest_def Let_def)

theorem ollama_issues_one_request_witness:
  "provider (settings (example_state ''ollama'')) = ''ollama'' \<and>
   ollamaUrl (settings (example_state ''ollama'')) = ''http://localhost:11434'' \<and>
   ollamaModel (settings (example_state ''ollama'')) = ''llama3'' \<and>
   length (requests (snd (analyzeTranscript (platform_of net_down sdk_down) example_ai
     (example_state ''ollama'')))) = 1 \<and>
   map (\<lambda>r. case r of Fetch q \<Rightarrow> (req_method q, req_url q) | GenerateContent a g \<Rightarrow> ([], []))
     (requests (snd (analyzeTranscript (platform_of net_down sdk_down) example_ai
        (example_state ''ollama'')))) =
   [(''POST'', ''http://localhost:11434/api/chat'')]"
proof -
  have h: "provider (settings (example_state ''ollama'')) = ''ollama''"
    "ollamaUrl (settings (example_state ''ollama'')) \<noteq> []"
    "ollamaModel (settings (example_state ''ollama'')) \<noteq> []"
    by (simp_all add: example_state_def example_settings_def)
  show ?thesis
    using ollama_issues_one_request [OF h, of "platform_of net_down sdk_down" example_ai]
    by (simp add: example_state_def example_settings_def)
qed

section \<open>Properties of the formatter\<close>

lemma split_on_not_Nil: "split_on d s \<noteq> []"
  by (induction s) (auto split: list.splits)

lemma split_on_no_delim: "d \<notin> set x \<Longrightarrow> split_on d x = [x]"
  by (induction x) auto

lemma split_on_append_delim:
  "d \<notin> set x \<Longrightarrow> split_on d (x @ d # rest) = x # split_on d rest"
  by (induction x) auto

lemma split_on_join:
  "xs \<noteq> [] \<Longrightarrow> \<forall>x\<in>set xs. d \<notin> set x \<Longrightarrow> split_on d (join [d] xs) = xs"
proof (induction "[d]" xs rule: join.induct)
  case 1
  then show ?case by simp
next
  case (2 x)
  then show ?case by (simp add: split_on_no_delim)
next
  case (3 x y ys)
  then show ?case by (simp add: split_on_append_delim)
qed

lemma join_Nil_iff: "\<forall>x\<in>set xs. x \<noteq> [] \<Longrightarrow> join sep xs = [] \<longleftrightarrow> xs = []"
  by (induction sep xs rule: join.induct) auto

lemma formatEntry_not_Nil: "formatEntry e \<noteq> []"
  by (simp add: formatEntry_def)

lemma formatEntry_single_line: "single_line_entry e \<Longrightarrow> CHR ''\<newline>'' \<notin> set (formatEntry e)"
  by (simp add: formatEntry_def single_line_entry_def single_line_def)

lemma lines_of_formatTranscript:
  assumes "\<forall>e\<in>set es. single_line_entry e"
  shows "lines_of (formatTranscript es) = map formatEntry es"
proof (cases "es = []")
  case True
  then show ?thesis by (simp add: lines_of_def formatTranscript_def)
next
  case False
  have ne: "join ''\<newline>'' (map formatEntry es) \<noteq> []"
    using False join_Nil_iff [of "map formatEntry es" "''\<newline>''"]
    by (simp add: formatEntry_not_Nil)
  have "split_on CHR ''\<newline>'' (join [CHR ''\<newline>''] (map formatEntry es)) = map formatEntry es"
    using False assms by (intro split_on_join) (auto simp: formatEntry_single_line)
  with ne show ?thesis by (simp add: lines_of_def formatTranscript_def)
qed

text \<open>
  C7 (as stated, for every sequence): the output has exactly N lines. It fails for an entry
  whose text holds a newline: one entry, two lines.
\<close>

theorem formatTranscript_lines_counterexample:
  "length (lines_of (formatTranscript
      [\<lparr>timestamp = ''00:02.150'', speaker = ''Speaker 1'', text = ''a\<newline>b''\<rparr>])) \<noteq>
   length [\<lparr>timestamp = ''00:02.150'', speaker = ''Speaker 1'', text = ''a\<newline>b''\<rparr>]"
  by (simp add: lines_of_def formatTranscript_def formatEntry_def)

text \<open>
  C7 (amended): the output is always the entries' renderings \<open>[timestamp] speaker: text\<close>
  joined by newline in input order, and the empty sequence gives the empty string; when no
  field of any entry holds a newline, the output has exactly N lines and the i-th line is the
  rendering of the i-th entry.
\<close>

theorem formatTranscript_lines:
  "formatTranscript [] = [] \<and>
   formatTranscript es = join ''\<newline>'' (map formatEntry es) \<and>
   ((\<forall>e\<in>set es. single_line_entry e) \<longrightarrow>
      length (lines_of (formatTranscript es)) = length es \<and>
      (\<forall>i<length es. lines_of (formatTranscript es) ! i =
         ''['' @ timestamp (es ! i) @ ''] '' @ speaker (es ! i) @ '': '' @ text (es ! i)))"
proof -
  have "formatTranscript [] = []" by (simp add: formatTranscript_def)
  moreover have "formatTranscript es = join ''\<newline>'' (map formatEntry es)"
    by (simp add: formatTranscript_def)
  moreover have "length (lines_of (formatTranscript es)) = length es \<and>
      (\<forall>i<length es. lines_of (formatTranscript es) ! i =
         ''['' @ timestamp (es ! i) @ ''] '' @ speaker (es ! i) @ '': '' @ text (es ! i))"
    if "\<forall>e\<in>set es. single_line_entry e"
    using lines_of_formatTranscript [OF that] by (simp add: formatEntry_def)
  ultimately show ?thesis by blast
qed

theorem formatTranscript_lines_witness:
  "single_line_entry \<lparr>timestamp = ''00:02.150'', speaker = ''Speaker 1'', text = ''Hi''\<rparr> \<and>
   single_line_entry \<lparr>timestamp = ''00:08.420'', speaker = ''Speaker 2'', text = ''Yes''\<rparr> \<and>
   length (lines_of (formatTranscript
     [\<lparr>timestamp = ''00:02.150'', speaker = ''Speaker 1'', text = ''Hi''\<rparr>,
      \<lparr>timestamp = ''00:08.420'', speaker = ''Speaker 2'', text = ''Yes''\<rparr>])) = 2 \<and>
   lines_of (formatTranscript
     [\<lparr>timestamp = ''00:02.150'', speaker = ''Speaker 1'', text = ''Hi''\<rparr>,
      \<lparr>timestamp = ''00:08.420'', speaker = ''Speaker 2'', text = ''Yes''\<rparr>]) ! 1 =
   ''[00:08.420] Speaker 2: Yes''"
proof -
  let ?es = "[\<lparr>timestamp = ''00:02.150'', speaker = ''Speaker 1'', text = ''Hi''\<rparr>,
              \<lparr>timestamp = ''00:08.420'', speaker = ''Speaker 2'', text = ''Yes''\<rparr>]"
  have h: "\<forall>e\<in>set ?es. single_line_entry e"
    by (simp add: single_line_entry_def single_line_def)
  from formatTranscript_lines [of ?es] h
  have n: "length (lines_of (formatTranscript ?es)) = length ?es"
    and l: "\<forall>i<length ?es. lines_of (formatTranscript ?es) ! i =
         ''['' @ timestamp (?es ! i) @ ''] '' @ speaker (?es ! i) @ '': '' @ text (?es ! i)"
    by blast+
  from l have "lines_of (formatTranscript ?es) ! 1 =
         ''['' @ timestamp (?es ! 1) @ ''] '' @ speaker (?es ! 1) @ '': '' @ text (?es ! 1)"
    by simp
  with h n show ?thesis by simp
qed

section \<open>Markdown fences\<close>

lemma backquote_not_space: "\<not> is_space CHR 0x60"
  by (simp add: is_space_def)

lemma trim_ends_with:
  assumes "\<not> is_space c" and "list_all is_space sp"
  shows "\<exists>a'. trim (a @ c # sp) = a' @ [c]"
proof -
  have 1: "dropWhile is_space (a @ c # sp) = dropWhile is_space a @ c # sp"
    using assms(1) by (rule dropWhile_append3)
  have "dropWhile is_space (rev sp @ c # rev (dropWhile is_space a)) = c # rev (dropWhile is_space a)"
    using assms by (simp add: dropWhile_append list_all_iff)
  with 1 show ?thesis by (simp add: trim_def)
qed

lemma trim_starts_with:
  assumes "\<not> is_space c"
  shows "\<exists>b'. trim (c # rest) = c # b'"
proof -
  have "dropWhile is_space (rev rest @ [c]) = dropWhile is_space (rev rest) @ [c]"
    using assms by (rule dropWhile_append3)
  then show ?thesis using assms by (simp add: trim_def)
qed

lemma strip_tail_fence_cases:
  "strip_tail_fence t = t \<or>
   (\<exists>pre sp. t = pre @ CHR 0x60 # sp \<and> list_all is_space sp)"
proof (induction t)
  case Nil
  then show ?case by simp
next
  case (Cons c cs)
  show ?case
  proof (cases "is_fence_tail (c # cs)")
    case True
    then have tk: "take 3 (c # cs) = ''```''" and sp: "list_all is_space (drop 3 (c # cs))"
      by (simp_all add: is_fence_tail_def)
    have "take 3 (c # cs) @ drop 3 (c # cs) = c # cs" by (rule append_take_drop_id)
    with tk have "c # cs = ''``'' @ CHR 0x60 # drop 3 (c # cs)" by simp
    with sp show ?thesis by blast
  next
    case False
    from Cons show ?thesis
    proof
      assume "strip_tail_fence cs = cs"
      with False show ?thesis by simp
    next
      assume "\<exists>pre sp. cs = pre @ CHR 0x60 # sp \<and> list_all is_space sp"
      then obtain pre sp where "cs = pre @ CHR 0x60 # sp" and sp: "list_all is_space sp" by blast
      then have "c # cs = (c # pre) @ CHR 0x60 # sp" by simp
      with sp show ?thesis by blast
    qed
  qed
qed

lemma object_text_replace_fences:
  assumes "object_text t"
  shows "replace_fences t = t"
proof -
  from assms have h: "hd (trim t) = CHR ''{''" and l: "last (trim t) = CHR ''}''"
    by (simp_all add: object_text_def)
  have no_tail: "strip_tail_fence t = t"
  proof (rule disjE [OF strip_tail_fence_cases [of t]])
    assume "\<exists>pre sp. t = pre @ CHR 0x60 # sp \<and> list_all is_space sp"
    then obtain pre sp where t: "t = pre @ CHR 0x60 # sp" and sp: "list_all is_space sp" by blast
    from trim_ends_with [OF backquote_not_space sp, of pre] t
    obtain a' where "trim t = a' @ [CHR 0x60]" by auto
    with l show ?thesis by simp
  qed
  have "take 7 t \<noteq> ''```json''"
  proof
    assume "take 7 t = ''```json''"
    then obtain rest where "t = CHR 0x60 # rest" by (cases t) auto
    with trim_starts_with [OF backquote_not_space, of rest]
    obtain b' where "trim t = CHR 0x60 # b'" by auto
    with h show False by simp
  qed
  with no_tail show ?thesis by (simp add: replace_fences_def)
qed

lemma not_fence_tail_long:
  assumes "u \<noteq> []"
  shows "\<not> is_fence_tail (u @ ''\<newline>```'')"
proof
  define xs where "xs = u @ ''\<newline>```''"
  assume "is_fence_tail (u @ ''\<newline>```'')"
  then have sp: "list_all is_space (drop 3 xs)" by (simp add: is_fence_tail_def xs_def)
  have len: "3 < length xs" using assms by (cases u) (simp_all add: xs_def)
  then have "last (drop 3 xs) = last xs" by (rule last_drop)
  then have "last (drop 3 xs) = CHR 0x60" by (simp add: xs_def)
  moreover have "drop 3 xs \<noteq> []" using len by (simp only: drop_eq_Nil not_le Not_eq_iff)
  ultimately have "CHR 0x60 \<in> set (drop 3 xs)" using last_in_set by metis
  with sp backquote_not_space show False by (auto simp: list_all_iff)
qed

lemma strip_tail_fence_closing: "strip_tail_fence (u @ ''\<newline>```'') = u @ ''\<newline>''"
proof (induction u)
  case Nil
  show ?case by (simp add: is_fence_tail_def is_space_def)
next
  case (Cons c u)
  have "\<not> is_fence_tail ((c # u) @ ''\<newline>```'')" by (rule not_fence_tail_long) simp
  with Cons show ?case by simp
qed

lemma trim_fenced: "trim (replace_fences (fenced t)) = trim t"
proof -
  define u where "u = dropWhile is_space t"
  have rf: "replace_fences (fenced t) =
          strip_tail_fence (dropWhile is_space (t @ ''\<newline>```''))"
    by (simp add: replace_fences_def fenced_def is_space_def)
  have tt: "trim t = rev (dropWhile is_space (rev u))"
    by (simp add: trim_def u_def)
  show ?thesis
  proof (cases "u = []")
    case True
    then have "\<forall>x\<in>set t. is_space x" by (simp add: u_def dropWhile_eq_Nil_conv)
    then have "dropWhile is_space (t @ ''\<newline>```'') = ''```''"
      by (simp add: dropWhile_append is_space_def)
    with rf have "replace_fences (fenced t) = []"
      by (simp add: is_fence_tail_def)
    with tt True show ?thesis by (simp add: trim_def)
  next
    case False
    then have ns: "\<not> is_space (hd u)" unfolding u_def by (rule hd_dropWhile)
    from False have "\<not> (\<forall>x\<in>set t. is_space x)" by (simp add: u_def dropWhile_eq_Nil_conv)
    then have "dropWhile is_space (t @ ''\<newline>```'') = u @ ''\<newline>```''"
      by (simp add: dropWhile_append u_def)
    with rf have r: "replace_fences (fenced t) = u @ ''\<newline>''"
      by (simp add: strip_tail_fence_closing)
    from False ns have "dropWhile is_space (u @ ''\<newline>'') = u @ ''\<newline>''"
      by (cases u) simp_all
    then have "trim (u @ ''\<newline>'') = rev (dropWhile is_space (rev u))"
      by (simp add: trim_def is_space_def)
    with r tt show ?thesis by simp
  qed
qed

lemma fenced_summary_only_not_json:
  "json_parse (trim (fenced ''{\"summary\":\"ok\"}'')) = None"
proof -
  have "trim (fenced ''{\"summary\":\"ok\"}'') = fenced ''{\"summary\":\"ok\"}''"
    by (simp add: fenced_def trim_def is_space_def)
  moreover have "json_parse (fenced ''{\"summary\":\"ok\"}'') = None"
    unfolding fenced_def by code_simp
  ultimately show ?thesis by simp
qed

lemma fenced_chat_completion_body_parsed:
  "json_parse (chat_completion_body (fenced ''{\"summary\":\"ok\"}'')) =
     Some (JObject [(''choices'', JArray [JObject [(''message'', JObject [
        (''content'', JString (fenced ''{\"summary\":\"ok\"}''))])]])])"
  unfolding chat_completion_body_def fenced_def by code_simp

lemma summary_only_object_text: "object_text ''{\"summary\":\"ok\"}''"
  by (simp add: object_text_def trim_def is_space_def)

text \<open>
  C8 (as stated): the fenced response and the bare one parse to the same result in the
  result-parsing step. On the Gemini path the text is only trimmed, so the fenced response
  is no JSON and the call fails where the bare response succeeds.
\<close>

theorem fence_counterexample:
  "fst (analyzeWithGemini
          (platform_of net_down (sdk_reply (''```json\<newline>'' @ ''{\"summary\":\"ok\"}'' @ ''\<newline>```'')))
          example_ai (example_state ''gemini'')) = Inl SyntaxError \<and>
   fst (analyzeWithGemini
          (platform_of net_down (sdk_reply ''{\"summary\":\"ok\"}''))
          example_ai (example_state ''gemini'')) = Inr (JObject [(''summary'', JString ''ok'')])"
  using fenced_summary_only_not_json
  by (simp add: gemini_reply summary_only_trimmed summary_only_parsed fenced_def)

text \<open>
  C8 (amended): on the LM Studio path, for every text \<open>t\<close> that opens with a brace and
  closes with one (whitespace around it aside), as every JSON object text does, the content
  \<open>"```json\n" + t + "\n```"\<close> and the content \<open>t\<close> give the same result: the fence markers
  are removed before \<^verbatim>\<open>JSON.parse\<close>, which in both cases gets \<open>t\<close> trimmed. The other
  three adapters remove no fence.
\<close>

theorem fence_stripped_by_lmstudio:
  assumes "object_text t"
  shows "parse_fenced_result pf (Some (JString (''```json\<newline>'' @ t @ ''\<newline>```''))) =
           parse_fenced_result pf (Some (JString t)) \<and>
         parse_fenced_result pf (Some (JString t)) =
           (case JSON_parse pf (trim t) of None \<Rightarrow> Inl SyntaxError | Some v \<Rightarrow> Inr v) \<and>
         (lmStudioUrl (settings st) \<noteq> [] \<and> fetch pf (lmStudioRequest pf st) = Inr r \<and>
          resp_ok r \<and> JSON_parse pf (resp_body r) = Some d \<and>
          choices0_message_content d =
            Inr (Some (JString (''```json\<newline>'' @ t @ ''\<newline>```''))) \<longrightarrow>
            fst (analyzeWithLmStudio pf st) = parse_fenced_result pf (Some (JString t)))"
proof -
  have f: "''```json\<newline>'' @ t @ ''\<newline>```'' = fenced t" by (simp add: fenced_def)
  have 1: "parse_fenced_result pf (Some (JString (fenced t))) =
        (case JSON_parse pf (trim t) of None \<Rightarrow> Inl SyntaxError | Some v \<Rightarrow> Inr v)"
    by (simp add: parse_fenced_result_string trim_fenced)
  have 2: "parse_fenced_result pf (Some (JString t)) =
        (case JSON_parse pf (trim t) of None \<Rightarrow> Inl SyntaxError | Some v \<Rightarrow> Inr v)"
    using object_text_replace_fences [OF assms] by (simp add: parse_fenced_result_string)
  have 3: "fst (analyzeWithLmStudio pf st) = parse_fenced_result pf (Some (JString t))"
    if "lmStudioUrl (settings st) \<noteq> []" "fetch pf (lmStudioRequest pf st) = Inr r" "resp_ok r"
      "JSON_parse pf (resp_body r) = Some d"
      "choices0_message_content d = Inr (Some (JString (fenced t)))"
    using analyzeWithLmStudio_result [OF that] 1 2 by simp
  from 1 2 3 show ?thesis unfolding f by simp
qed

theorem fence_stripped_by_lmstudio_witness:
  "object_text ''{\"summary\":\"ok\"}'' \<and>
   parse_fenced_result (platform_of net_down sdk_down)
     (Some (JString (''```json\<newline>'' @ ''{\"summary\":\"ok\"}'' @ ''\<newline>```''))) =
     Inr (JObject [(''summary'', JString ''ok'')]) \<and>
   parse_fenced_result (platform_of net_down sdk_down) (Some (JString ''{\"summary\":\"ok\"}'')) =
     Inr (JObject [(''summary'', JString ''ok'')]) \<and>
   fst (analyzeWithLmStudio
          (platform_of (net_reply (''```json\<newline>'' @ ''{\"summary\":\"ok\"}'' @ ''\<newline>```'')) sdk_down)
          (example_state ''lmstudio'')) = Inr (JObject [(''summary'', JString ''ok'')])"
proof -
  let ?t = "''{\"summary\":\"ok\"}''"
  let ?v = "JObject [(''summary'', JString ''ok'')]"
  let ?pf = "platform_of (net_reply (''```json\<newline>'' @ ?t @ ''\<newline>```'')) sdk_down"
  let ?st = "example_state ''lmstudio''"
  let ?r = "\<lparr>resp_ok = True, resp_body = chat_completion_body (fenced ?t)\<rparr>"
  let ?d = "JObject [(''choices'', JArray [JObject [(''message'', JObject [
        (''content'', JString (fenced ?t))])]])]"
  have f: "''```json\<newline>'' @ ?t @ ''\<newline>```'' = fenced ?t" by (simp add: fenced_def)
  have ot: "object_text ?t" by (rule summary_only_object_text)
  have p: "JSON_parse (platform_of net sdk) (trim ?t) = Some ?v" for net sdk
    by (simp add: platform_of_def summary_only_trimmed summary_only_parsed)
  have u: "lmStudioUrl (settings ?st) \<noteq> []"
    by (simp add: example_state_def example_settings_def)
  have fe: "fetch ?pf (lmStudioRequest ?pf ?st) = Inr ?r"
    by (simp add: platform_of_def net_reply_def lmStudioRequest_def Let_def
          example_state_def example_settings_def fenced_def)
  have ok: "resp_ok ?r" by simp
  have d: "JSON_parse ?pf (resp_body ?r) = Some ?d"
    by (simp add: platform_of_def fenced_chat_completion_body_parsed)
  have c: "choices0_message_content ?d = Inr (Some (JString (''```json\<newline>'' @ ?t @ ''\<newline>```'')))"
    by (simp add: choices0_message_content_def fenced_def)
  from fence_stripped_by_lmstudio [OF ot, of "platform_of net_down sdk_down"] p
  have a: "parse_fenced_result (platform_of net_down sdk_down)
      (Some (JString (''```json\<newline>'' @ ?t @ ''\<newline>```''))) = Inr ?v"
    and b: "parse_fenced_result (platform_of net_down sdk_down) (Some (JString ?t)) = Inr ?v"
    by simp_all
  from fence_stripped_by_lmstudio [OF ot, of ?pf ?st ?r ?d] u fe ok d c p
  have "fst (analyzeWithLmStudio ?pf ?st) = Inr ?v" by simp
  with ot a b show ?thesis by simp
qed

section \<open>Module initialisation\<close>

text \<open>
  C9: the API key of the Gemini client is read from the environment when the module is
  loaded; with the key absent (or empty) the load throws
  \<open>API_KEY environment variable not set\<close>, so the importing program has no
  \<^verbatim>\<open>analyzeTranscript\<close> to call: no state is produced, no call is issued.
\<close>

theorem geminiService_absent_key:
  "geminiService None = Inl (Error ''API_KEY environment variable not set'') \<and>
   geminiService (Some []) = Inl (Error ''API_KEY environment variable not set'') \<and>
   import_analyzeTranscript pf None st = Inl (Error ''API_KEY environment variable not set'') \<and>
   import_analyzeTranscript pf (Some []) st = Inl (Error ''API_KEY environment variable not set'')"
  by (simp add: geminiService_def import_analyzeTranscript_def)

end
